theory Spec2Isabelle
  imports Main
begin

section \<open>Values, effects and the outside world\<close>

text \<open>
  The two scripts (\<^verbatim>\<open>financedl/config.py\<close>, the session pipeline, and
  \<^verbatim>\<open>ofx/client.py\<close>, the direct-connect pipeline) are modelled as functions from
  the outside world to the list of effects they perform, in order, and the way the
  process ends.  Everything the scripts obtain from outside (environment variables,
  clocks, the outcome of each library or operating-system call) is a field of
  \<open>world\<close>; a call that can raise returns the exception it raises.
\<close>

text \<open>A value handed to \<^verbatim>\<open>json.dumps\<close>: the dictionaries, lists, strings and
  booleans the scripts build.  The rendering to text is not modelled.\<close>

datatype json = JStr string | JBool bool | JList "json list" | JObj "(string \<times> json) list"

text \<open>An exception raised by a library or operating-system call: its class name and
  \<^verbatim>\<open>str(e)\<close>.  Only subclasses of \<^verbatim>\<open>Exception\<close> are modelled.\<close>

datatype exn = Exn (exn_class: string) (exn_str: string)

text \<open>An exception nothing catches: it ends the process with a traceback and no
  JSON output.\<close>

datatype crash = OverflowError | KeyError string | Unhandled exn

datatype ending = Exit int | Uncaught crash

text \<open>The arguments of \<^verbatim>\<open>OFXClient(...)\<close> and \<^verbatim>\<open>StmtRq(...)\<close>.  An aware UTC
  datetime is the number of microseconds since 0001-01-01T00:00:00.\<close>

record ofx_client =
  url :: string
  userid :: string
  userpass :: string
  org :: string
  fid :: string
  version :: nat

record stmt_rq =
  acctid :: string
  accttype :: string
  dtstart :: int
  dtend :: int
  bankid :: string

text \<open>The object \<^verbatim>\<open>request_statements\<close> returns: reading it gives bytes or raises.\<close>

datatype response = Response (read_response: "exn + string")

text \<open>The naive local time \<^verbatim>\<open>datetime.now()\<close> returns, by its fields.\<close>

record local_time =
  year :: nat
  month :: nat
  day :: nat
  hour :: nat
  minute :: nat
  second :: nat

text \<open>What is written to a file: raw bytes, literal text, or one line
  \<^verbatim>\<open>    <json.dumps(key)>: <json.dumps(val)>,\<close> of the config artifact.\<close>

datatype filedata = Bytes string | Text string | EntryLine string json

text \<open>The effects, recorded when the call is made (whether or not it then raises).\<close>

datatype event =
    Mkdir string
  | Stderr string
  | Stdout json
  | UsageError string
  | NewClient ofx_client
  | NewStmtRq stmt_rq
  | RequestStatements ofx_client stmt_rq
  | FileOpen string
  | FileWrite string filedata

record world =
  environ :: "string \<Rightarrow> string option"
  HAS_OFXTOOLS :: bool
  path_mkdir :: "string \<Rightarrow> exn option"
  now_utc :: "nat \<Rightarrow> int"
  now_local :: local_time
  OFXClient :: "ofx_client \<Rightarrow> exn option"
  StmtRq :: "stmt_rq \<Rightarrow> exn option"
  request_statements :: "ofx_client \<Rightarrow> stmt_rq \<Rightarrow> exn + response"
  open_file :: "string \<Rightarrow> exn option"
  write_file :: "string \<Rightarrow> filedata \<Rightarrow> exn option"

text \<open>\<^verbatim>\<open>os.environ.get(key, default)\<close>.\<close>

definition environ_get :: "world \<Rightarrow> string \<Rightarrow> string \<Rightarrow> string" where
  "environ_get w k dflt = (case environ w k of None \<Rightarrow> dflt | Some v \<Rightarrow> v)"

text \<open>\<^verbatim>\<open>os.path.join(a, b)\<close> of \<^verbatim>\<open>posixpath\<close>.\<close>

definition os_path_join :: "string \<Rightarrow> string \<Rightarrow> string" where
  "os_path_join a b =
     (if b \<noteq> [] \<and> hd b = CHR ''/'' then b
      else if a = [] \<or> last a = CHR ''/'' then a @ b
      else a @ ''/'' @ b)"

text \<open>\<^verbatim>\<open>str.upper()\<close> on ASCII text.\<close>

definition upper_char :: "char \<Rightarrow> char" where
  "upper_char c =
     (case map_of (zip ''abcdefghijklmnopqrstuvwxyz'' ''ABCDEFGHIJKLMNOPQRSTUVWXYZ'') c of
        None \<Rightarrow> c
      | Some u \<Rightarrow> u)"

definition upper :: "string \<Rightarrow> string" where
  "upper s = map upper_char s"

text \<open>\<^verbatim>\<open>d[k]\<close> / \<^verbatim>\<open>d.get(k)\<close> on a dictionary value.\<close>

definition json_get :: "json \<Rightarrow> string \<Rightarrow> json option" where
  "json_get j k = (case j of JObj kvs \<Rightarrow> map_of kvs k | _ \<Rightarrow> None)"

text \<open>\<^verbatim>\<open>d[k] = v\<close> on a Python dictionary kept as an association list in insertion
  order: an existing key keeps its position, a new key goes last.\<close>

fun dict_set :: "'k \<Rightarrow> 'v \<Rightarrow> ('k \<times> 'v) list \<Rightarrow> ('k \<times> 'v) list" where
  "dict_set k v [] = [(k, v)]"
| "dict_set k v ((k', v') # d) = (if k' = k then (k, v) # d else (k', v') # dict_set k v d)"

text \<open>Prefix an effect to the trace of the rest of a computation.\<close>

fun emit :: "event \<Rightarrow> event list \<times> 'a \<Rightarrow> event list \<times> 'a" where
  "emit e (evs, r) = (e # evs, r)"

section \<open>The session pipeline: financedl/config.py\<close>

definition INSTITUTION_MODULES_items :: "(string \<times> string) list" where
  "INSTITUTION_MODULES_items =
     [(''capitalone'', ''finance_dl.capitalone''),
      (''macu'', ''finance_dl.mountain_america''),
      (''m1finance'', ''finance_dl.m1finance'')]"

definition INSTITUTION_MODULES :: "string \<Rightarrow> string option" where
  "INSTITUTION_MODULES = map_of INSTITUTION_MODULES_items"

definition ENV_KEYS :: "string \<Rightarrow> (string \<times> string) option" where
  "ENV_KEYS = map_of
     [(''capitalone'', (''CAPITALONE_USERNAME'', ''CAPITALONE_PASSWORD'')),
      (''macu'', (''MACU_USERNAME'', ''MACU_PASSWORD'')),
      (''m1finance'', (''M1_USERNAME'', ''M1_PASSWORD''))]"

definition no_credentials_msg :: "string \<Rightarrow> string" where
  "no_credentials_msg inst = ''[finance-dl] No credentials for '' @ inst @ '', skipping''"

definition config_entry :: "string \<Rightarrow> string \<Rightarrow> string \<Rightarrow> string \<Rightarrow> json" where
  "config_entry module username password out_dir =
     JObj [(''module'', JStr module),
           (''username'', JStr username),
           (''password'', JStr password),
           (''output_directory'', JStr out_dir),
           (''output_format'', JStr ''ofx'')]"

text \<open>The loop of \<^verbatim>\<open>build_config\<close>, with \<open>cfg\<close> the dictionary built so far.  A failing
  \<^verbatim>\<open>mkdir\<close> (or a missing module entry) raises out of the loop.\<close>

fun build_config_loop ::
  "world \<Rightarrow> string \<Rightarrow> string list \<Rightarrow> (string \<times> json) list
     \<Rightarrow> event list \<times> (crash + (string \<times> json) list)" where
  "build_config_loop w downloads_dir [] cfg = ([], Inr cfg)"
| "build_config_loop w downloads_dir (inst # rest) cfg =
     (case ENV_KEYS inst of
        None \<Rightarrow> build_config_loop w downloads_dir rest cfg
      | Some (ukey, pkey) \<Rightarrow>
          if ukey = [] then build_config_loop w downloads_dir rest cfg
          else if environ_get w ukey [] = [] \<or> environ_get w pkey [] = [] then
            emit (Stderr (no_credentials_msg inst))
              (build_config_loop w downloads_dir rest cfg)
          else
            (case path_mkdir w (os_path_join downloads_dir inst) of
               Some e \<Rightarrow> ([Mkdir (os_path_join downloads_dir inst)], Inl (Unhandled e))
             | None \<Rightarrow>
                 (case INSTITUTION_MODULES inst of
                    None \<Rightarrow> ([Mkdir (os_path_join downloads_dir inst)], Inl (KeyError inst))
                  | Some module \<Rightarrow>
                      emit (Mkdir (os_path_join downloads_dir inst))
                        (build_config_loop w downloads_dir rest
                           (dict_set inst
                              (config_entry module (environ_get w ukey [])
                                 (environ_get w pkey []) (os_path_join downloads_dir inst))
                              cfg)))))"

definition build_config ::
  "world \<Rightarrow> string list \<Rightarrow> string \<Rightarrow> event list \<times> (crash + (string \<times> json) list)" where
  "build_config w institutions downloads_dir =
     build_config_loop w downloads_dir institutions []"

definition config_path :: string where
  "config_path = ''/tmp/financedl_config.py''"

text \<open>The \<^verbatim>\<open>f.write\<close> calls inside \<^verbatim>\<open>with open(config_path, 'w') as f\<close>, one after the
  other; the first that raises ends the block.\<close>

fun write_all :: "world \<Rightarrow> string \<Rightarrow> filedata list \<Rightarrow> event list \<times> exn option" where
  "write_all w path [] = ([], None)"
| "write_all w path (d # ds) =
     (case write_file w path d of
        Some e \<Rightarrow> ([FileWrite path d], Some e)
      | None \<Rightarrow> emit (FileWrite path d) (write_all w path ds))"

definition config_lines :: "(string \<times> json) list \<Rightarrow> filedata list" where
  "config_lines cfg =
     Text ''data_sources = {\<newline>'' # map (\<lambda>(key, val). EntryLine key val) cfg @ [Text ''}\<newline>'']"

definition write_config :: "world \<Rightarrow> (string \<times> json) list \<Rightarrow> event list \<times> exn option" where
  "write_config w cfg =
     (case open_file w config_path of
        Some e \<Rightarrow> ([FileOpen config_path], Some e)
      | None \<Rightarrow> emit (FileOpen config_path) (write_all w config_path (config_lines cfg)))"

definition error_result :: json where
  "error_result = JObj [(''status'', JStr ''error''), (''message'', JStr ''No credentials configured'')]"

definition ok_result :: "string list \<Rightarrow> json" where
  "ok_result sources =
     JObj [(''status'', JStr ''ok''), (''config'', JStr config_path),
           (''sources'', JList (map JStr sources))]"

text \<open>The body of \<^verbatim>\<open>__main__\<close> after \<^verbatim>\<open>parse_args\<close>.\<close>

definition session_main :: "world \<Rightarrow> string list \<Rightarrow> string \<Rightarrow> event list \<times> ending" where
  "session_main w institutions downloads_dir =
     (case build_config w institutions downloads_dir of
        (evs, Inl c) \<Rightarrow> (evs, Uncaught c)
      | (evs, Inr cfg) \<Rightarrow>
          if cfg = [] then (evs @ [Stdout error_result], Exit 1)
          else
            (case write_config w cfg of
               (evs', Some e) \<Rightarrow> (evs @ evs', Uncaught (Unhandled e))
             | (evs', None) \<Rightarrow> (evs @ evs' @ [Stdout (ok_result (map fst cfg))], Exit 0)))"

text \<open>The command line of the session pipeline: \<^verbatim>\<open>--institutions\<close> takes one or more
  names and defaults to the keys of \<^verbatim>\<open>INSTITUTION_MODULES\<close>; \<^verbatim>\<open>--downloads-dir\<close>
  defaults to \<^verbatim>\<open>DOWNLOADS_DIR\<close> or \<^verbatim>\<open>/app/downloads\<close>.  A rejected command line
  prints a usage message and exits with status 2.\<close>

record session_argv =
  argv_institutions :: "string list option"
  argv_downloads_dir :: "string option"

definition session_cli :: "world \<Rightarrow> session_argv \<Rightarrow> event list \<times> ending" where
  "session_cli w argv =
     (case argv_institutions argv of
        Some [] \<Rightarrow> ([UsageError ''--institutions''], Exit 2)
      | sel \<Rightarrow>
          session_main w
            (case sel of None \<Rightarrow> map fst INSTITUTION_MODULES_items | Some insts \<Rightarrow> insts)
            (case argv_downloads_dir argv of
               None \<Rightarrow> environ_get w ''DOWNLOADS_DIR'' ''/app/downloads''
             | Some d \<Rightarrow> d))"

section \<open>The direct-connect pipeline: ofx/client.py\<close>

record institution =
  inst_url :: string
  inst_fid :: string
  inst_org :: string
  inst_bankid :: string

definition INSTITUTIONS_items :: "(string \<times> institution) list" where
  "INSTITUTIONS_items =
     [(''chase'',
         \<lparr>inst_url = ''https://ofx.chase.com'', inst_fid = ''10898'', inst_org = ''B1'',
          inst_bankid = ''072000326''\<rparr>),
      (''usaa'',
         \<lparr>inst_url = ''https://service2.usaa.com/ofx/OFXServer'', inst_fid = ''24591'',
          inst_org = ''USAA'', inst_bankid = ''314074269''\<rparr>)]"

definition INSTITUTIONS :: "string \<Rightarrow> institution option" where
  "INSTITUTIONS = map_of INSTITUTIONS_items"

text \<open>\<^verbatim>\<open>timedelta(days=days)\<close> and \<^verbatim>\<open>datetime - timedelta\<close>, in microseconds.  A timedelta
  holds at most 999999999 days either way; a datetime lies in the years 1 to 9999, days
  1 to 3652059 of the proleptic Gregorian calendar.  Outside, Python raises
  \<^verbatim>\<open>OverflowError\<close>.\<close>

definition us_per_day :: int where
  "us_per_day = 86400000000"

definition MAXORDINAL :: int where
  "MAXORDINAL = 3652059"

definition timedelta_days :: "int \<Rightarrow> crash + int" where
  "timedelta_days days =
     (if - 999999999 \<le> days \<and> days \<le> 999999999 then Inr (days * us_per_day)
      else Inl OverflowError)"

definition datetime_sub :: "int \<Rightarrow> int \<Rightarrow> crash + int" where
  "datetime_sub t delta =
     (if 0 < (t - delta) div us_per_day + 1 \<and> (t - delta) div us_per_day + 1 \<le> MAXORDINAL
      then Inr (t - delta) else Inl OverflowError)"

text \<open>\<^verbatim>\<open>strftime('%Y%m%d_%H%M%S')\<close> on a datetime whose fields are in range.\<close>

definition digit :: "nat \<Rightarrow> char" where
  "digit n = ''0123456789'' ! (n mod 10)"

definition zero_pad2 :: "nat \<Rightarrow> string" where
  "zero_pad2 n = [digit (n div 10), digit n]"

definition zero_pad4 :: "nat \<Rightarrow> string" where
  "zero_pad4 n = [digit (n div 1000), digit (n div 100), digit (n div 10), digit n]"

definition strftime :: "local_time \<Rightarrow> string" where
  "strftime t =
     zero_pad4 (year t) @ zero_pad2 (month t) @ zero_pad2 (day t) @ ''_'' @
     zero_pad2 (hour t) @ zero_pad2 (minute t) @ zero_pad2 (second t)"

text \<open>The body of the \<^verbatim>\<open>try\<close> block of \<^verbatim>\<open>download_ofx\<close>: the effects made, and either the
  exception raised or the name of the file written.  \<^verbatim>\<open>open\<close> runs before
  \<^verbatim>\<open>response.read()\<close>, and that before \<^verbatim>\<open>f.write\<close>.\<close>

definition try_block ::
  "world \<Rightarrow> institution \<Rightarrow> string \<Rightarrow> string \<Rightarrow> string \<Rightarrow> int \<Rightarrow> int \<Rightarrow> string
     \<Rightarrow> event list \<times> (exn + string)" where
  "try_block w cfg institution username password t_start t_end output_dir =
     (let client = \<lparr>url = inst_url cfg, userid = username, userpass = password,
                     org = inst_org cfg, fid = inst_fid cfg, version = 220\<rparr>
      in case OFXClient w client of
        Some e \<Rightarrow> ([NewClient client], Inl e)
      | None \<Rightarrow>
         (let stmtrq = \<lparr>acctid = [], accttype = ''CHECKING'', dtstart = t_start,
                         dtend = t_end, bankid = inst_bankid cfg\<rparr>
          in case StmtRq w stmtrq of
            Some e \<Rightarrow> ([NewClient client, NewStmtRq stmtrq], Inl e)
          | None \<Rightarrow>
             (case request_statements w client stmtrq of
                Inl e \<Rightarrow>
                  ([NewClient client, NewStmtRq stmtrq, RequestStatements client stmtrq], Inl e)
              | Inr resp \<Rightarrow>
                 (let fname = os_path_join output_dir
                                (institution @ ''_'' @ strftime (now_local w) @ ''.ofx'')
                  in case open_file w fname of
                    Some e \<Rightarrow>
                      ([NewClient client, NewStmtRq stmtrq, RequestStatements client stmtrq,
                        FileOpen fname], Inl e)
                  | None \<Rightarrow>
                     (case read_response resp of
                        Inl e \<Rightarrow>
                          ([NewClient client, NewStmtRq stmtrq,
                            RequestStatements client stmtrq, FileOpen fname], Inl e)
                      | Inr body \<Rightarrow>
                         (case write_file w fname (Bytes body) of
                            Some e \<Rightarrow>
                              ([NewClient client, NewStmtRq stmtrq,
                                RequestStatements client stmtrq, FileOpen fname,
                                FileWrite fname (Bytes body)], Inl e)
                          | None \<Rightarrow>
                              ([NewClient client, NewStmtRq stmtrq,
                                RequestStatements client stmtrq, FileOpen fname,
                                FileWrite fname (Bytes body)], Inr fname)))))))"

definition download_ofx ::
  "world \<Rightarrow> string \<Rightarrow> string \<Rightarrow> string \<Rightarrow> int \<Rightarrow> string \<Rightarrow> event list \<times> (crash + json)" where
  "download_ofx w institution username password days output_dir =
     (if \<not> HAS_OFXTOOLS w then
        ([], Inr (JObj [(''success'', JBool False), (''error'', JStr ''ofxtools not installed''),
                        (''files'', JList [])]))
      else case INSTITUTIONS institution of
        None \<Rightarrow>
          ([], Inr (JObj [(''success'', JBool False),
                          (''error'', JStr (''Unknown institution: '' @ institution)),
                          (''files'', JList [])]))
      | Some cfg \<Rightarrow>
         (case path_mkdir w output_dir of
            Some e \<Rightarrow> ([Mkdir output_dir], Inl (Unhandled e))
          | None \<Rightarrow>
             (case timedelta_days days of
                Inl c \<Rightarrow> ([Mkdir output_dir], Inl c)
              | Inr delta \<Rightarrow>
                 (case datetime_sub (now_utc w 0) delta of
                    Inl c \<Rightarrow> ([Mkdir output_dir], Inl c)
                  | Inr t_start \<Rightarrow>
                     (case try_block w cfg institution username password t_start (now_utc w 1)
                             output_dir of
                        (evs, Inr fname) \<Rightarrow>
                          (Mkdir output_dir # evs,
                           Inr (JObj [(''success'', JBool True), (''files'', JList [JStr fname]),
                                      (''institution'', JStr institution)]))
                      | (evs, Inl e) \<Rightarrow>
                          (Mkdir output_dir # evs,
                           Inr (JObj [(''success'', JBool False), (''error'', JStr (exn_str e)),
                                      (''files'', JList []),
                                      (''institution'', JStr institution)])))))))"

text \<open>The body of \<^verbatim>\<open>__main__\<close> after \<^verbatim>\<open>parse_args\<close>.\<close>

record ofx_args =
  args_institution :: string
  args_days :: int
  args_output :: string

definition ofx_main :: "world \<Rightarrow> ofx_args \<Rightarrow> event list \<times> ending" where
  "ofx_main w args =
     (let username = environ_get w (upper (args_institution args) @ ''_USERNAME'') [];
          password = environ_get w (upper (args_institution args) @ ''_PASSWORD'') []
      in if username = [] \<or> password = [] then
           ([Stdout (JObj [(''success'', JBool False), (''error'', JStr ''Missing credentials''),
                           (''files'', JList [])])], Exit 1)
         else
           (case download_ofx w (args_institution args) username password (args_days args)
                   (os_path_join (args_output args) (args_institution args)) of
              (evs, Inl c) \<Rightarrow> (evs, Uncaught c)
            | (evs, Inr result) \<Rightarrow>
                (evs @ [Stdout result],
                 Exit (if json_get result ''success'' = Some (JBool True) then 0 else 1))))"

text \<open>The command line of the direct-connect pipeline: \<^verbatim>\<open>--institution\<close> is required and
  must be one of the keys of \<^verbatim>\<open>INSTITUTIONS\<close>; \<^verbatim>\<open>--days\<close> defaults to 30 and
  \<^verbatim>\<open>--output\<close> to \<^verbatim>\<open>/app/downloads\<close>.  A rejected command line prints a usage message and
  exits with status 2.\<close>

record ofx_argv =
  argv_institution :: "string option"
  argv_days :: "int option"
  argv_output :: "string option"

definition ofx_cli :: "world \<Rightarrow> ofx_argv \<Rightarrow> event list \<times> ending" where
  "ofx_cli w argv =
     (case argv_institution argv of
        None \<Rightarrow> ([UsageError ''--institution''], Exit 2)
      | Some i \<Rightarrow>
          if i \<notin> set (map fst INSTITUTIONS_items) then ([UsageError ''--institution''], Exit 2)
          else
            ofx_main w
              \<lparr>args_institution = i,
               args_days = (case argv_days argv of None \<Rightarrow> 30 | Some n \<Rightarrow> n),
               args_output = (case argv_output argv of None \<Rightarrow> ''/app/downloads'' | Some p \<Rightarrow> p)\<rparr>)"

section \<open>Vocabulary of the properties\<close>

text \<open>An institution is eligible when the loop of \<^verbatim>\<open>build_config\<close> reaches its
  \<^verbatim>\<open>mkdir\<close>: it has credential keys and both values are non-empty.\<close>

definition eligible :: "world \<Rightarrow> string \<Rightarrow> bool" where
  "eligible w inst =
     (case ENV_KEYS inst of
        None \<Rightarrow> False
      | Some (ukey, pkey) \<Rightarrow>
          ukey \<noteq> [] \<and> environ_get w ukey [] \<noteq> [] \<and> environ_get w pkey [] \<noteq> [])"

text \<open>A list without its repetitions, each element where it first occurs
  (\<open>remdups\<close> keeps the last occurrence).\<close>

definition first_occurrences :: "'a list \<Rightarrow> 'a list" where
  "first_occurrences xs = rev (remdups (rev xs))"

text \<open>The record \<^verbatim>\<open>build_config\<close> stores for an institution.\<close>

definition entry_for :: "world \<Rightarrow> string \<Rightarrow> string \<Rightarrow> json option" where
  "entry_for w d inst =
     (case ENV_KEYS inst of
        None \<Rightarrow> None
      | Some (ukey, pkey) \<Rightarrow>
          (case INSTITUTION_MODULES inst of
             None \<Rightarrow> None
           | Some m \<Rightarrow>
               Some (config_entry m (environ_get w ukey []) (environ_get w pkey [])
                       (os_path_join d inst))))"

text \<open>The effects that belong to the protocol session: constructing it, building the
  statement request, sending it.\<close>

fun is_protocol_event :: "event \<Rightarrow> bool" where
  "is_protocol_event (NewClient c) = True"
| "is_protocol_event (NewStmtRq r) = True"
| "is_protocol_event (RequestStatements c r) = True"
| "is_protocol_event e = False"

fun is_file_event :: "event \<Rightarrow> bool" where
  "is_file_event (FileOpen p) = True"
| "is_file_event (FileWrite p x) = True"
| "is_file_event e = False"



text \<open>The session, the statement request and the file name that the \<^verbatim>\<open>try\<close> block of
  \<^verbatim>\<open>download_ofx\<close> builds, and the two results it returns.\<close>

definition client_of :: "institution \<Rightarrow> string \<Rightarrow> string \<Rightarrow> ofx_client" where
  "client_of cfg username password =
     \<lparr>url = inst_url cfg, userid = username, userpass = password,
      org = inst_org cfg, fid = inst_fid cfg, version = 220\<rparr>"

definition stmtrq_of :: "institution \<Rightarrow> int \<Rightarrow> int \<Rightarrow> stmt_rq" where
  "stmtrq_of cfg t_start t_end =
     \<lparr>acctid = [], accttype = ''CHECKING'', dtstart = t_start, dtend = t_end,
      bankid = inst_bankid cfg\<rparr>"

definition fname_of :: "world \<Rightarrow> string \<Rightarrow> string \<Rightarrow> string" where
  "fname_of w institution output_dir =
     os_path_join output_dir (institution @ ''_'' @ strftime (now_local w) @ ''.ofx'')"

definition failure :: "string \<Rightarrow> string \<Rightarrow> json" where
  "failure msg institution =
     JObj [(''success'', JBool False), (''error'', JStr msg), (''files'', JList []),
           (''institution'', JStr institution)]"

definition success :: "string \<Rightarrow> string \<Rightarrow> json" where
  "success fname institution =
     JObj [(''success'', JBool True), (''files'', JList [JStr fname]),
           (''institution'', JStr institution)]"

text \<open>The result \<^verbatim>\<open>__main__\<close> prints when a credential is missing.\<close>

definition missing_credentials_result :: json where
  "missing_credentials_result =
     JObj [(''success'', JBool False), (''error'', JStr ''Missing credentials''),
           (''files'', JList [])]"

text \<open>The invariant of a download result as the specification words it: a result with
  \<open>success\<close> true has a non-empty file list, one with \<open>success\<close> false has a non-empty
  error message.\<close>

fun download_result_invariant :: "json \<Rightarrow> bool" where
  "download_result_invariant r =
     (case json_get r ''success'' of
        Some (JBool True) \<Rightarrow>
          (case json_get r ''files'' of Some (JList (f # fs)) \<Rightarrow> True | _ \<Rightarrow> False)
      | Some (JBool False) \<Rightarrow>
          (case json_get r ''error'' of Some (JStr (c # cs)) \<Rightarrow> True | _ \<Rightarrow> False)
      | _ \<Rightarrow> False)"

section \<open>Concrete worlds\<close>

definition demo_environ :: "string \<Rightarrow> string option" where
  "demo_environ = map_of
     [(''CAPITALONE_USERNAME'', ''carol''), (''CAPITALONE_PASSWORD'', ''pw1''),
      (''MACU_USERNAME'', ''mallory''),
      (''CHASE_USERNAME'', ''alice''), (''CHASE_PASSWORD'', ''pw2'')]"

text \<open>A world in which every call succeeds; the UTC clock advances by a microsecond
  between two readings.\<close>

definition demo_world :: world where
  "demo_world =
     \<lparr>environ = demo_environ,
      HAS_OFXTOOLS = True,
      path_mkdir = (\<lambda>p. None),
      now_utc = (\<lambda>k. 63929380000000000 + int k),
      now_local = \<lparr>year = 2026, month = 11, day = 4, hour = 9, minute = 5, second = 7\<rparr>,
      OFXClient = (\<lambda>c. None),
      StmtRq = (\<lambda>r. None),
      request_statements = (\<lambda>c r. Inr (Response (Inr ''OFXHEADER:100''))),
      open_file = (\<lambda>p. None),
      write_file = (\<lambda>p x. None)\<rparr>"

text \<open>The same world without the \<^verbatim>\<open>ofxtools\<close> library.\<close>

definition world_without_ofxtools :: world where
  "world_without_ofxtools = demo_world\<lparr>HAS_OFXTOOLS := False\<rparr>"

text \<open>A world in which the statement request raises an exception whose message is
  empty, as \<^verbatim>\<open>assert\<close> does.\<close>

definition world_silent_failure :: world where
  "world_silent_failure =
     demo_world\<lparr>request_statements := (\<lambda>c r. Inl (Exn ''AssertionError'' []))\<rparr>"

text \<open>A request for Chase statements with the default day count and output directory.\<close>

definition chase_args :: ofx_args where
  "chase_args = \<lparr>args_institution = ''chase'', args_days = 30, args_output = ''/app/downloads''\<rparr>"

text \<open>A world in which no file can be opened for writing.\<close>

definition world_read_only :: world where
  "world_read_only =
     demo_world\<lparr>open_file := (\<lambda>p. Some (Exn ''PermissionError'' ''[Errno 13] Permission denied''))\<rparr>"

text \<open>A world in which the statement request fails to connect.\<close>

definition world_offline :: world where
  "world_offline =
     demo_world\<lparr>request_statements := (\<lambda>c r. Inl (Exn ''ConnectionError'' ''Connection refused''))\<rparr>"

section \<open>Properties of the session pipeline\<close>

subsection \<open>Dictionaries and first occurrences\<close>

lemma remdups_drop_seen: "x \<in> set bs \<Longrightarrow> remdups (as @ x # bs) = remdups (as @ bs)"
  by (induction as) auto

lemma first_occurrences_seen:
  "x \<in> set ks \<Longrightarrow> first_occurrences (ks @ x # xs) = first_occurrences (ks @ xs)"
  by (simp add: first_occurrences_def remdups_drop_seen)

lemma first_occurrences_distinct: "distinct ks \<Longrightarrow> first_occurrences ks = ks"
  by (simp add: first_occurrences_def distinct_remdups_id)

lemma set_first_occurrences: "set (first_occurrences xs) = set xs"
  by (simp add: first_occurrences_def)

lemma distinct_first_occurrences: "distinct (first_occurrences xs)"
  by (simp add: first_occurrences_def)

lemma keys_dict_set:
  "map fst (dict_set k v d) = (if k \<in> fst ` set d then map fst d else map fst d @ [k])"
  by (induction d) force+

lemma distinct_keys_dict_set: "distinct (map fst d) \<Longrightarrow> distinct (map fst (dict_set k v d))"
  by (simp add: keys_dict_set)

lemma map_of_dict_set: "map_of (dict_set k v d) = (map_of d)(k \<mapsto> v)"
  by (induction d) (auto simp: fun_eq_iff)

lemma module_of_env_keys:
  "ENV_KEYS inst = Some p \<Longrightarrow> \<exists>m. INSTITUTION_MODULES inst = Some m"
  by (auto simp: ENV_KEYS_def INSTITUTION_MODULES_def INSTITUTION_MODULES_items_def
      split: if_splits)

lemma env_keys_nonempty: "ENV_KEYS inst = Some (ukey, pkey) \<Longrightarrow> ukey \<noteq> []"
  by (auto simp: ENV_KEYS_def split: if_splits)

lemma fst_emit [simp]: "fst (emit e p) = e # fst p"
  by (cases p) simp

lemma snd_emit [simp]: "snd (emit e p) = snd p"
  by (cases p) simp

lemma loop_skip:
  "\<not> eligible w inst \<Longrightarrow>
   build_config_loop w d (inst # rest) cfg =
     (if ENV_KEYS inst = None then build_config_loop w d rest cfg
      else emit (Stderr (no_credentials_msg inst)) (build_config_loop w d rest cfg))"
  by (auto simp: eligible_def split: option.splits prod.splits dest: env_keys_nonempty)

lemma loop_take:
  "eligible w inst \<Longrightarrow>
   \<exists>ukey pkey m. ENV_KEYS inst = Some (ukey, pkey) \<and> INSTITUTION_MODULES inst = Some m \<and>
     build_config_loop w d (inst # rest) cfg =
       (case path_mkdir w (os_path_join d inst) of
          Some e \<Rightarrow> ([Mkdir (os_path_join d inst)], Inl (Unhandled e))
        | None \<Rightarrow>
            emit (Mkdir (os_path_join d inst))
              (build_config_loop w d rest
                 (dict_set inst
                    (config_entry m (environ_get w ukey []) (environ_get w pkey [])
                       (os_path_join d inst)) cfg)))"
proof -
  assume e: "eligible w inst"
  then obtain ukey pkey where k: "ENV_KEYS inst = Some (ukey, pkey)"
    by (auto simp: eligible_def split: option.splits)
  from module_of_env_keys [OF k] obtain m where m: "INSTITUTION_MODULES inst = Some m" ..
  from e k m show ?thesis
    by (auto simp: eligible_def split: option.splits)
qed

declare build_config_loop.simps(2) [simp del]

lemma loop_keys:
  "distinct (map fst cfg) \<Longrightarrow> snd (build_config_loop w d insts cfg) = Inr cfg' \<Longrightarrow>
   map fst cfg' = first_occurrences (map fst cfg @ filter (eligible w) insts)"
proof (induction insts arbitrary: cfg)
  case Nil
  then show ?case by (simp add: first_occurrences_distinct)
next
  case (Cons inst rest)
  show ?case
  proof (cases "eligible w inst")
    case False
    with Cons show ?thesis by (simp add: loop_skip split: if_splits)
  next
    case True
    from loop_take [OF True, of d rest cfg] obtain ukey pkey m where
      eq: "build_config_loop w d (inst # rest) cfg =
       (case path_mkdir w (os_path_join d inst) of
          Some e \<Rightarrow> ([Mkdir (os_path_join d inst)], Inl (Unhandled e))
        | None \<Rightarrow>
            emit (Mkdir (os_path_join d inst))
              (build_config_loop w d rest
                 (dict_set inst
                    (config_entry m (environ_get w ukey []) (environ_get w pkey [])
                       (os_path_join d inst)) cfg)))"
      by blast
    let ?cfg2 = "dict_set inst (config_entry m (environ_get w ukey []) (environ_get w pkey [])
                       (os_path_join d inst)) cfg"
    from Cons.prems(2) eq have r: "snd (build_config_loop w d rest ?cfg2) = Inr cfg'"
      by (auto split: option.splits)
    have "map fst cfg' = first_occurrences (map fst ?cfg2 @ filter (eligible w) rest)"
      by (rule Cons.IH [OF distinct_keys_dict_set [OF Cons.prems(1)] r])
    with True show ?thesis
      by (auto simp: keys_dict_set first_occurrences_seen)
  qed
qed



lemma loop_take':
  "eligible w inst \<Longrightarrow>
   \<exists>entry. entry_for w d inst = Some entry \<and>
     build_config_loop w d (inst # rest) cfg =
       (case path_mkdir w (os_path_join d inst) of
          Some e \<Rightarrow> ([Mkdir (os_path_join d inst)], Inl (Unhandled e))
        | None \<Rightarrow>
            emit (Mkdir (os_path_join d inst))
              (build_config_loop w d rest (dict_set inst entry cfg)))"
  using loop_take [of w inst d rest cfg] by (auto simp: entry_for_def)

lemma loop_map_of:
  "snd (build_config_loop w d insts cfg) = Inr cfg' \<Longrightarrow>
   map_of cfg' = (\<lambda>i. if i \<in> set insts \<and> eligible w i then entry_for w d i else map_of cfg i)"
proof (induction insts arbitrary: cfg)
  case Nil
  then show ?case by simp
next
  case (Cons inst rest)
  show ?case
  proof (cases "eligible w inst")
    case False
    with Cons show ?thesis by (auto simp: loop_skip fun_eq_iff split: if_splits)
  next
    case True
    from loop_take' [OF True, of d rest cfg] obtain entry where
      en: "entry_for w d inst = Some entry" and
      eq: "build_config_loop w d (inst # rest) cfg =
       (case path_mkdir w (os_path_join d inst) of
          Some e \<Rightarrow> ([Mkdir (os_path_join d inst)], Inl (Unhandled e))
        | None \<Rightarrow>
            emit (Mkdir (os_path_join d inst))
              (build_config_loop w d rest (dict_set inst entry cfg)))"
      by blast
    from Cons.prems eq have r: "snd (build_config_loop w d rest (dict_set inst entry cfg)) = Inr cfg'"
      by (auto split: option.splits)
    from Cons.IH [OF r] True en show ?thesis
      by (auto simp: map_of_dict_set fun_eq_iff)
  qed
qed

lemma loop_total:
  "\<forall>p. path_mkdir w p = None \<Longrightarrow> \<exists>cfg'. snd (build_config_loop w d insts cfg) = Inr cfg'"
proof (induction insts arbitrary: cfg)
  case Nil
  then show ?case by simp
next
  case (Cons inst rest)
  show ?case
  proof (cases "eligible w inst")
    case False
    with Cons show ?thesis by (simp add: loop_skip)
  next
    case True
    from loop_take' [OF True, of d rest cfg] Cons show ?thesis
      by auto
  qed
qed

lemma loop_events:
  "e \<in> set (fst (build_config_loop w d insts cfg)) \<Longrightarrow>
   \<exists>i \<in> set insts. ENV_KEYS i \<noteq> None \<and>
      (e = Stderr (no_credentials_msg i) \<or> e = Mkdir (os_path_join d i))"
proof (induction insts arbitrary: cfg)
  case Nil
  then show ?case by simp
next
  case (Cons inst rest)
  show ?case
  proof (cases "eligible w inst")
    case False
    with Cons show ?thesis by (auto simp: loop_skip split: if_splits)
  next
    case True
    then have k: "ENV_KEYS inst \<noteq> None" by (auto simp: eligible_def split: option.splits)
    from loop_take' [OF True, of d rest cfg] obtain entry where
      eq: "build_config_loop w d (inst # rest) cfg =
       (case path_mkdir w (os_path_join d inst) of
          Some e \<Rightarrow> ([Mkdir (os_path_join d inst)], Inl (Unhandled e))
        | None \<Rightarrow>
            emit (Mkdir (os_path_join d inst))
              (build_config_loop w d rest (dict_set inst entry cfg)))"
      by blast
    show ?thesis
    proof (cases "path_mkdir w (os_path_join d inst)")
      case None
      with eq Cons.prems have
        "e = Mkdir (os_path_join d inst) \<or>
         e \<in> set (fst (build_config_loop w d rest (dict_set inst entry cfg)))"
        by simp
      then show ?thesis
      proof
        assume "e = Mkdir (os_path_join d inst)"
        with k show ?thesis by simp
      next
        assume "e \<in> set (fst (build_config_loop w d rest (dict_set inst entry cfg)))"
        from Cons.IH [OF this] show ?thesis by auto
      qed
    next
      case (Some x)
      with eq Cons.prems k show ?thesis by simp
    qed
  qed
qed

lemma loop_none_eligible:
  "\<forall>i \<in> set insts. \<not> eligible w i \<Longrightarrow>
   build_config_loop w d insts cfg =
     (map (\<lambda>i. Stderr (no_credentials_msg i)) (filter (\<lambda>i. ENV_KEYS i \<noteq> None) insts), Inr cfg)"
  by (induction insts) (auto simp: loop_skip)

lemma loop_unknown:
  "ENV_KEYS inst = None \<Longrightarrow>
   build_config_loop w d (removeAll inst insts) cfg = build_config_loop w d insts cfg"
proof (induction insts arbitrary: cfg)
  case Nil
  then show ?case by simp
next
  case (Cons i rest)
  show ?case
  proof (cases "i = inst")
    case True
    with Cons show ?thesis by (simp add: build_config_loop.simps(2))
  next
    case False
    with Cons show ?thesis
      by (simp add: build_config_loop.simps(2) split: option.splits prod.splits)
  qed
qed

lemma write_all_done:
  "snd (write_all w p ds) = None \<Longrightarrow> fst (write_all w p ds) = map (FileWrite p) ds"
  by (induction ds) (auto split: option.splits)

lemma write_all_ok:
  "\<forall>x. write_file w p x = None \<Longrightarrow> write_all w p ds = (map (FileWrite p) ds, None)"
  by (induction ds) auto

lemma write_all_events:
  "e \<in> set (fst (write_all w p ds)) \<Longrightarrow> \<exists>x. e = FileWrite p x"
  by (induction ds) (auto split: option.splits)

lemma write_config_events:
  "e \<in> set (fst (write_config w cfg)) \<Longrightarrow> e = FileOpen config_path \<or> (\<exists>x. e = FileWrite config_path x)"
  by (auto simp: write_config_def split: option.splits dest: write_all_events)

lemma write_config_done:
  "snd (write_config w cfg) = None \<Longrightarrow>
   fst (write_config w cfg) = FileOpen config_path # map (FileWrite config_path) (config_lines cfg)"
  by (auto simp: write_config_def write_all_done split: option.splits)

lemma write_config_ok:
  "open_file w config_path = None \<Longrightarrow> \<forall>x. write_file w config_path x = None \<Longrightarrow>
   write_config w cfg = (FileOpen config_path # map (FileWrite config_path) (config_lines cfg), None)"
  by (simp add: write_config_def write_all_ok)


lemma build_config_no_output:
  "Stdout r \<notin> set (fst (build_config w insts d))"
  "FileOpen p \<notin> set (fst (build_config w insts d))"
  "FileWrite p x \<notin> set (fst (build_config w insts d))"
  by (auto simp: build_config_def dest: loop_events)

lemma write_config_no_output:
  "Stdout r \<notin> set (fst (write_config w cfg))"
  "Stderr m \<notin> set (fst (write_config w cfg))"
  by (auto dest: write_config_events)

lemma build_config_keys:
  "snd (build_config w insts d) = Inr cfg \<Longrightarrow>
   map fst cfg = first_occurrences (filter (eligible w) insts)"
  using loop_keys [of "[]" w d insts cfg] by (simp add: build_config_def)

lemma build_config_nonempty:
  assumes "\<exists>inst \<in> set insts. eligible w inst" and "snd (build_config w insts d) = Inr cfg"
  shows "cfg \<noteq> []"
proof
  assume "cfg = []"
  with build_config_keys [OF assms(2)] have "set (first_occurrences (filter (eligible w) insts)) = {}"
    by simp
  with assms(1) show False by (auto simp: set_first_occurrences)
qed

lemma session_main_stdout:
  assumes el: "\<exists>inst \<in> set insts. eligible w inst"
    and out: "Stdout r \<in> set (fst (session_main w insts d))"
  shows "r = ok_result (first_occurrences (filter (eligible w) insts))"
proof (cases "build_config w insts d")
  case (Pair evs res)
  show ?thesis
  proof (cases res)
    case (Inl c)
    with Pair out build_config_no_output(1) [of r w insts d] show ?thesis
      by (simp add: session_main_def)
  next
    case (Inr cfg)
    with Pair have b: "snd (build_config w insts d) = Inr cfg" by simp
    have ne: "cfg \<noteq> []" by (rule build_config_nonempty [OF el b])
    from Pair Inr ne out build_config_no_output(1) [of r w insts d]
      write_config_no_output(1) [of r w cfg] build_config_keys [OF b]
    show ?thesis
      by (cases "write_config w cfg") (auto simp: session_main_def split: option.splits)
  qed
qed

lemma session_main_exit0:
  assumes "snd (session_main w insts d) = Exit 0"
  shows "\<exists>evs cfg. build_config w insts d = (evs, Inr cfg) \<and> cfg \<noteq> [] \<and>
           snd (write_config w cfg) = None \<and>
           fst (session_main w insts d) =
             evs @ fst (write_config w cfg) @ [Stdout (ok_result (map fst cfg))]"
proof (cases "build_config w insts d")
  case (Pair evs res)
  with assms show ?thesis
    by (cases res; cases "write_config w (projr res)")
       (auto simp: session_main_def split: option.splits if_splits)
qed

lemma session_main_total:
  assumes el: "\<exists>inst \<in> set insts. eligible w inst"
    and fs: "\<forall>p. path_mkdir w p = None" "open_file w config_path = None"
      "\<forall>x. write_file w config_path x = None"
  shows "snd (session_main w insts d) = Exit 0"
proof -
  from loop_total [OF fs(1), of d insts "[]"] obtain cfg where
    b: "snd (build_config w insts d) = Inr cfg" by (auto simp: build_config_def)
  have ne: "cfg \<noteq> []" by (rule build_config_nonempty [OF el b])
  from b ne write_config_ok [OF fs(2,3), of cfg] show ?thesis
    by (cases "build_config w insts d") (simp add: session_main_def)
qed


text \<open>
  Claim C1.  When at least one requested institution has both of its credential
  variables set to non-empty strings, every result the session pipeline prints is the
  \<open>ok\<close> result whose \<open>sources\<close> list is the requested institutions with complete
  credentials, each once, in the order in which they were first requested; a run that
  ends normally prints it, ending with status 0, and the run ends normally whenever the
  directory creations and the writes of the artifact succeed.  The list has exactly the
  eligible requested institutions as its elements, and for a request without
  repetitions it is the request filtered by eligibility.
\<close>

theorem session_sources:
  assumes "\<exists>inst \<in> set institutions. eligible w inst"
  shows "(\<forall>r. Stdout r \<in> set (fst (session_main w institutions d)) \<longrightarrow>
            r = JObj [(''status'', JStr ''ok''), (''config'', JStr ''/tmp/financedl_config.py''),
                      (''sources'',
                       JList (map JStr (first_occurrences (filter (eligible w) institutions))))])
       \<and> (snd (session_main w institutions d) = Exit 0 \<longrightarrow>
            Stdout (JObj [(''status'', JStr ''ok''), (''config'', JStr ''/tmp/financedl_config.py''),
                      (''sources'',
                       JList (map JStr (first_occurrences (filter (eligible w) institutions))))])
              \<in> set (fst (session_main w institutions d)))
       \<and> ((\<forall>p. path_mkdir w p = None) \<and> open_file w config_path = None \<and>
            (\<forall>x. write_file w config_path x = None) \<longrightarrow>
            snd (session_main w institutions d) = Exit 0)
       \<and> set (first_occurrences (filter (eligible w) institutions))
            = {inst \<in> set institutions. eligible w inst}
       \<and> distinct (first_occurrences (filter (eligible w) institutions))
       \<and> (distinct institutions \<longrightarrow>
            first_occurrences (filter (eligible w) institutions)
              = filter (eligible w) institutions)"
proof -
  let ?sources = "first_occurrences (filter (eligible w) institutions)"
  have r: "ok_result ?sources =
             JObj [(''status'', JStr ''ok''), (''config'', JStr ''/tmp/financedl_config.py''),
                   (''sources'', JList (map JStr ?sources))]"
    by (simp add: ok_result_def config_path_def)
  have 1: "\<forall>r. Stdout r \<in> set (fst (session_main w institutions d)) \<longrightarrow> r = ok_result ?sources"
    using session_main_stdout [OF assms] by blast
  have 2: "snd (session_main w institutions d) = Exit 0 \<longrightarrow>
            Stdout (ok_result ?sources) \<in> set (fst (session_main w institutions d))"
  proof
    assume "snd (session_main w institutions d) = Exit 0"
    from session_main_exit0 [OF this] obtain evs cfg where
      b: "build_config w institutions d = (evs, Inr cfg)" and
      f: "fst (session_main w institutions d) =
             evs @ fst (write_config w cfg) @ [Stdout (ok_result (map fst cfg))]"
      by blast
    from b have "snd (build_config w institutions d) = Inr cfg" by simp
    from build_config_keys [OF this] f
    show "Stdout (ok_result ?sources) \<in> set (fst (session_main w institutions d))"
      by simp
  qed
  have 3: "(\<forall>p. path_mkdir w p = None) \<and> open_file w config_path = None \<and>
            (\<forall>x. write_file w config_path x = None) \<longrightarrow>
            snd (session_main w institutions d) = Exit 0"
    using session_main_total [OF assms] by blast
  have 4: "set ?sources = {inst \<in> set institutions. eligible w inst}"
    by (auto simp: set_first_occurrences)
  have 5: "distinct ?sources"
    by (rule distinct_first_occurrences)
  have 6: "distinct institutions \<longrightarrow> ?sources = filter (eligible w) institutions"
    by (simp add: first_occurrences_distinct)
  from 1 [unfolded r] 2 [unfolded r] 3 4 5 6 show ?thesis by blast
qed

theorem session_sources_witness:
  "snd (session_main demo_world [''macu'', ''capitalone'', ''chase'', ''capitalone''] ''/tmp/x'') = Exit 0
   \<and> Stdout (JObj [(''status'', JStr ''ok''), (''config'', JStr ''/tmp/financedl_config.py''),
                   (''sources'', JList [JStr ''capitalone''])])
       \<in> set (fst (session_main demo_world [''macu'', ''capitalone'', ''chase'', ''capitalone''] ''/tmp/x''))"
proof -
  have el: "eligible demo_world ''capitalone''"
    by (simp add: eligible_def ENV_KEYS_def environ_get_def demo_world_def demo_environ_def)
  have h: "\<exists>inst \<in> set [''macu'', ''capitalone'', ''chase'', ''capitalone'']. eligible demo_world inst"
    using el by simp
  have f: "first_occurrences (filter (eligible demo_world) [''macu'', ''capitalone'', ''chase'', ''capitalone''])
             = [''capitalone'']"
    by (simp add: first_occurrences_def eligible_def ENV_KEYS_def environ_get_def demo_world_def
        demo_environ_def)
  have fs: "(\<forall>p. path_mkdir demo_world p = None) \<and> open_file demo_world config_path = None \<and>
            (\<forall>x. write_file demo_world config_path x = None)"
    by (simp add: demo_world_def)
  from session_sources [OF h, of "''/tmp/x''"] f fs show ?thesis
    by simp
qed

lemma no_credentials_msg_inj: "no_credentials_msg a = no_credentials_msg b \<Longrightarrow> a = b"
  by (simp add: no_credentials_msg_def)

text \<open>
  Claim C2.  When no requested institution has both credential variables set to
  non-empty strings, the session pipeline prints one notice on standard error for each
  requested institution of the registry, then the result with status \<open>error\<close>, and
  exits with status 1; it opens and writes no file, so no config artifact is written.
\<close>

theorem session_no_credentials:
  assumes "\<forall>inst \<in> set institutions. \<not> eligible w inst"
  shows "session_main w institutions d =
           (map (\<lambda>inst. Stderr (no_credentials_msg inst))
              (filter (\<lambda>inst. ENV_KEYS inst \<noteq> None) institutions)
            @ [Stdout (JObj [(''status'', JStr ''error''),
                             (''message'', JStr ''No credentials configured'')])],
            Exit 1)
       \<and> (\<forall>e \<in> set (fst (session_main w institutions d)). \<not> is_file_event e)"
proof -
  from loop_none_eligible [OF assms, of d "[]"]
  have m: "session_main w institutions d =
           (map (\<lambda>inst. Stderr (no_credentials_msg inst))
              (filter (\<lambda>inst. ENV_KEYS inst \<noteq> None) institutions)
            @ [Stdout (JObj [(''status'', JStr ''error''),
                             (''message'', JStr ''No credentials configured'')])],
            Exit 1)"
    by (simp add: session_main_def build_config_def error_result_def)
  then have "\<forall>e \<in> set (fst (session_main w institutions d)). \<not> is_file_event e"
    by auto
  with m show ?thesis by blast
qed

theorem session_no_credentials_witness:
  "session_main demo_world [''macu'', ''chase''] ''/tmp/x'' =
     ([Stderr ''[finance-dl] No credentials for macu, skipping'',
       Stdout (JObj [(''status'', JStr ''error''), (''message'', JStr ''No credentials configured'')])],
      Exit 1)"
proof -
  have h: "\<forall>inst \<in> set [''macu'', ''chase'']. \<not> eligible demo_world inst"
    by (simp add: eligible_def ENV_KEYS_def environ_get_def demo_world_def demo_environ_def)
  have k: "filter (\<lambda>inst. ENV_KEYS inst \<noteq> None) [''macu'', ''chase''] = [''macu'']"
    by (simp add: ENV_KEYS_def)
  from session_no_credentials [OF h, of "''/tmp/x''"] k show ?thesis
    by (simp add: no_credentials_msg_def)
qed

lemma registry_no_slash: "ENV_KEYS inst = Some p \<Longrightarrow> inst \<noteq> [] \<and> hd inst \<noteq> CHR ''/''"
  by (auto simp: ENV_KEYS_def split: if_splits)

lemma os_path_join_plain:
  "b \<noteq> [] \<Longrightarrow> hd b \<noteq> CHR ''/'' \<Longrightarrow> a \<noteq> [] \<Longrightarrow> last a \<noteq> CHR ''/'' \<Longrightarrow>
   os_path_join a b = a @ ''/'' @ b"
  by (simp add: os_path_join_def)

text \<open>
  Claim C7.  For an institution that is requested and eligible, every run of the
  session pipeline that ends normally has written to the config artifact a line for that
  institution whose record holds the adapter module, the username, the password, the
  output directory \<^verbatim>\<open>os.path.join(downloads_dir, institution)\<close> and the output format
  \<open>ofx\<close>.  The output directory is literally \<open>downloads_dir/institution\<close> when the
  downloads directory is non-empty and has no trailing slash.  The run ends normally
  whenever the directory creations and the writes of the artifact succeed.
\<close>

theorem session_artifact_entry:
  assumes "inst \<in> set institutions"
    and "ENV_KEYS inst = Some (ukey, pkey)"
    and "environ_get w ukey [] \<noteq> []" and "environ_get w pkey [] \<noteq> []"
  shows "\<exists>module. INSTITUTION_MODULES inst = Some module \<and>
           (snd (session_main w institutions d) = Exit 0 \<longrightarrow>
              FileWrite config_path
                (EntryLine inst
                   (JObj [(''module'', JStr module),
                          (''username'', JStr (environ_get w ukey [])),
                          (''password'', JStr (environ_get w pkey [])),
                          (''output_directory'', JStr (os_path_join d inst)),
                          (''output_format'', JStr ''ofx'')]))
                \<in> set (fst (session_main w institutions d)))
         \<and> (d \<noteq> [] \<and> last d \<noteq> CHR ''/'' \<longrightarrow> os_path_join d inst = d @ ''/'' @ inst)
         \<and> ((\<forall>p. path_mkdir w p = None) \<and> open_file w config_path = None \<and>
              (\<forall>x. write_file w config_path x = None) \<longrightarrow>
              snd (session_main w institutions d) = Exit 0)"
proof -
  from module_of_env_keys [OF assms(2)] obtain m where m: "INSTITUTION_MODULES inst = Some m" ..
  have el: "eligible w inst"
    using assms(2-4) env_keys_nonempty [OF assms(2)] by (simp add: eligible_def)
  let ?entry = "JObj [(''module'', JStr m),
                          (''username'', JStr (environ_get w ukey [])),
                          (''password'', JStr (environ_get w pkey [])),
                          (''output_directory'', JStr (os_path_join d inst)),
                          (''output_format'', JStr ''ofx'')]"
  have en: "entry_for w d inst = Some ?entry"
    using assms(2) m by (simp add: entry_for_def config_entry_def)
  have 1: "snd (session_main w institutions d) = Exit 0 \<longrightarrow>
              FileWrite config_path (EntryLine inst ?entry) \<in> set (fst (session_main w institutions d))"
  proof
    assume "snd (session_main w institutions d) = Exit 0"
    from session_main_exit0 [OF this] obtain evs cfg where
      b: "build_config w institutions d = (evs, Inr cfg)" and
      wr: "snd (write_config w cfg) = None" and
      f: "fst (session_main w institutions d) =
             evs @ fst (write_config w cfg) @ [Stdout (ok_result (map fst cfg))]"
      by blast
    from b have "snd (build_config_loop w d institutions []) = Inr cfg"
      by (simp add: build_config_def)
    from loop_map_of [OF this] assms(1) el en have "map_of cfg inst = Some ?entry"
      by simp
    then have "(inst, ?entry) \<in> set cfg" by (rule map_of_SomeD)
    then have "EntryLine inst ?entry \<in> set (config_lines cfg)"
      by (force simp: config_lines_def)
    with write_config_done [OF wr] f
    show "FileWrite config_path (EntryLine inst ?entry) \<in> set (fst (session_main w institutions d))"
      by simp
  qed
  have 2: "d \<noteq> [] \<and> last d \<noteq> CHR ''/'' \<longrightarrow> os_path_join d inst = d @ ''/'' @ inst"
    using registry_no_slash [OF assms(2)] by (simp add: os_path_join_plain)
  have 3: "(\<forall>p. path_mkdir w p = None) \<and> open_file w config_path = None \<and>
              (\<forall>x. write_file w config_path x = None) \<longrightarrow>
              snd (session_main w institutions d) = Exit 0"
    using session_main_total [of institutions w d] assms(1) el by blast
  from m 1 2 3 show ?thesis by blast
qed

theorem session_artifact_entry_witness:
  "FileWrite ''/tmp/financedl_config.py''
     (EntryLine ''capitalone''
        (JObj [(''module'', JStr ''finance_dl.capitalone''),
               (''username'', JStr ''carol''),
               (''password'', JStr ''pw1''),
               (''output_directory'', JStr ''/tmp/x/capitalone''),
               (''output_format'', JStr ''ofx'')]))
     \<in> set (fst (session_main demo_world [''macu'', ''capitalone''] ''/tmp/x''))"
proof -
  have a: "''capitalone'' \<in> set [''macu'', ''capitalone'']" by simp
  have k: "ENV_KEYS ''capitalone'' = Some (''CAPITALONE_USERNAME'', ''CAPITALONE_PASSWORD'')"
    by (simp add: ENV_KEYS_def)
  have u: "environ_get demo_world ''CAPITALONE_USERNAME'' [] = ''carol''"
    by (simp add: environ_get_def demo_world_def demo_environ_def)
  have p: "environ_get demo_world ''CAPITALONE_PASSWORD'' [] = ''pw1''"
    by (simp add: environ_get_def demo_world_def demo_environ_def)
  have u': "environ_get demo_world ''CAPITALONE_USERNAME'' [] \<noteq> []" using u by simp
  have p': "environ_get demo_world ''CAPITALONE_PASSWORD'' [] \<noteq> []" using p by simp
  have m: "INSTITUTION_MODULES ''capitalone'' = Some ''finance_dl.capitalone''"
    by (simp add: INSTITUTION_MODULES_def INSTITUTION_MODULES_items_def)
  have fs: "(\<forall>p. path_mkdir demo_world p = None) \<and> open_file demo_world config_path = None \<and>
            (\<forall>x. write_file demo_world config_path x = None)"
    by (simp add: demo_world_def)
  have j: "os_path_join ''/tmp/x'' ''capitalone'' = ''/tmp/x/capitalone''"
    by (simp add: os_path_join_def)
  from session_artifact_entry [OF a k u' p', of "''/tmp/x''"] u p m fs j show ?thesis
    by (auto simp: config_path_def)
qed

lemma session_main_events:
  assumes "e \<in> set (fst (session_main w insts d))"
  shows "e \<in> set (fst (build_config w insts d)) \<or> (\<exists>cfg. e \<in> set (fst (write_config w cfg)))
         \<or> (\<exists>r. e = Stdout r)"
proof (cases "build_config w insts d")
  case (Pair evs res)
  show ?thesis
  proof (cases res)
    case (Inl c)
    with Pair assms show ?thesis by (simp add: session_main_def)
  next
    case (Inr cfg)
    show ?thesis
    proof (cases "write_config w cfg")
      case wc: (Pair evs' r)
      then have "fst (write_config w cfg) = evs'" by simp
      with Pair Inr wc assms show ?thesis
        by (cases r) (auto simp: session_main_def split: if_splits intro: exI [of _ cfg])
    qed
  qed
qed

lemma session_main_stdout_cases:
  assumes "Stdout r \<in> set (fst (session_main w insts d))"
  shows "r = error_result \<or>
         (\<exists>cfg. snd (build_config w insts d) = Inr cfg \<and> r = ok_result (map fst cfg))"
proof (cases "build_config w insts d")
  case (Pair evs res)
  show ?thesis
  proof (cases res)
    case (Inl c)
    with Pair assms build_config_no_output(1) [of r w insts d] show ?thesis
      by (simp add: session_main_def)
  next
    case (Inr cfg)
    from Pair Inr assms build_config_no_output(1) [of r w insts d]
      write_config_no_output(1) [of r w cfg]
    show ?thesis
      by (cases "write_config w cfg") (auto simp: session_main_def split: if_splits option.splits)
  qed
qed

text \<open>
  Claim C10.  A requested identity that is not in the session registry is skipped
  silently: the run is, effect for effect, the run of the request without it, so it
  raises nothing; no notice about it goes to standard error; it is not a key of the
  mapping \<^verbatim>\<open>build_config\<close> returns; and it is not in the \<open>sources\<close> of a printed result.
\<close>

theorem session_unknown_skipped:
  assumes "ENV_KEYS inst = None"
  shows "session_main w institutions d = session_main w (removeAll inst institutions) d
       \<and> Stderr (no_credentials_msg inst) \<notin> set (fst (session_main w institutions d))
       \<and> (\<forall>cfg. snd (build_config w institutions d) = Inr cfg \<longrightarrow> inst \<notin> fst ` set cfg)
       \<and> (\<forall>r sources. Stdout r \<in> set (fst (session_main w institutions d)) \<and>
             json_get r ''sources'' = Some (JList (map JStr sources))
             \<longrightarrow> inst \<notin> set sources)"
proof -
  have ne: "\<not> eligible w inst" using assms by (simp add: eligible_def)
  have 1: "session_main w institutions d = session_main w (removeAll inst institutions) d"
    by (simp add: session_main_def build_config_def loop_unknown [OF assms])
  have 3: "\<forall>cfg. snd (build_config w institutions d) = Inr cfg \<longrightarrow> inst \<notin> fst ` set cfg"
  proof (intro allI impI)
    fix cfg assume "snd (build_config w institutions d) = Inr cfg"
    from build_config_keys [OF this] have "set (map fst cfg) = {i \<in> set institutions. eligible w i}"
      by (auto simp: set_first_occurrences)
    with ne show "inst \<notin> fst ` set cfg" by auto
  qed
  have 2: "Stderr (no_credentials_msg inst) \<notin> set (fst (session_main w institutions d))"
  proof
    assume a: "Stderr (no_credentials_msg inst) \<in> set (fst (session_main w institutions d))"
    from session_main_events [OF a] write_config_no_output(2) [of "no_credentials_msg inst" w]
    have "Stderr (no_credentials_msg inst) \<in> set (fst (build_config w institutions d))"
      by auto
    then obtain i where "ENV_KEYS i \<noteq> None" "no_credentials_msg inst = no_credentials_msg i"
      by (auto simp: build_config_def dest!: loop_events)
    with assms no_credentials_msg_inj show False by metis
  qed
  have 4: "\<forall>r sources. Stdout r \<in> set (fst (session_main w institutions d)) \<and>
             json_get r ''sources'' = Some (JList (map JStr sources))
             \<longrightarrow> inst \<notin> set sources"
  proof (intro allI impI)
    fix r sources
    assume a: "Stdout r \<in> set (fst (session_main w institutions d)) \<and>
             json_get r ''sources'' = Some (JList (map JStr sources))"
    have inj: "inj JStr" by (simp add: inj_def)
    from a have "r \<noteq> error_result" by (auto simp: error_result_def json_get_def)
    with a session_main_stdout_cases [of r w institutions d]
    obtain cfg where b: "snd (build_config w institutions d) = Inr cfg"
      and "r = ok_result (map fst cfg)"
      by blast
    with a have "map JStr sources = map JStr (map fst cfg)"
      by (simp add: ok_result_def json_get_def)
    then have "sources = map fst cfg" by (simp only: inj_map_eq_map [OF inj])
    with 3 b show "inst \<notin> set sources" by simp
  qed
  from 1 2 3 4 show ?thesis by blast
qed

theorem session_unknown_skipped_witness:
  "session_main demo_world [''chase'', ''capitalone''] ''/tmp/x'' =
     session_main demo_world [''capitalone''] ''/tmp/x''
   \<and> Stderr (no_credentials_msg ''chase'')
       \<notin> set (fst (session_main demo_world [''chase'', ''capitalone''] ''/tmp/x''))"
proof -
  have h: "ENV_KEYS ''chase'' = None" by (simp add: ENV_KEYS_def)
  note t = session_unknown_skipped [OF h, of demo_world "[''chase'', ''capitalone'']" "''/tmp/x''"]
  have r: "removeAll ''chase'' [''chase'', ''capitalone''] = [''capitalone'']" by simp
  from t have a: "session_main demo_world [''chase'', ''capitalone''] ''/tmp/x'' =
     session_main demo_world (removeAll ''chase'' [''chase'', ''capitalone'']) ''/tmp/x''"
    by blast
  from t have b: "Stderr (no_credentials_msg ''chase'')
       \<notin> set (fst (session_main demo_world [''chase'', ''capitalone''] ''/tmp/x''))"
    by blast
  from a [unfolded r] b show ?thesis by (rule conjI)
qed


section \<open>Properties of the direct-connect pipeline\<close>

subsection \<open>The steps of the pipeline\<close>

lemma try_block_steps:
  "try_block w cfg i u p ts te out =
     (let c = client_of cfg u p; r = stmtrq_of cfg ts te; f = fname_of w i out in
      case OFXClient w c of
        Some e \<Rightarrow> ([NewClient c], Inl e)
      | None \<Rightarrow>
         (case StmtRq w r of
            Some e \<Rightarrow> ([NewClient c, NewStmtRq r], Inl e)
          | None \<Rightarrow>
             (case request_statements w c r of
                Inl e \<Rightarrow> ([NewClient c, NewStmtRq r, RequestStatements c r], Inl e)
              | Inr resp \<Rightarrow>
                 (case open_file w f of
                    Some e \<Rightarrow> ([NewClient c, NewStmtRq r, RequestStatements c r, FileOpen f], Inl e)
                  | None \<Rightarrow>
                     (case read_response resp of
                        Inl e \<Rightarrow>
                          ([NewClient c, NewStmtRq r, RequestStatements c r, FileOpen f], Inl e)
                      | Inr body \<Rightarrow>
                         (case write_file w f (Bytes body) of
                            Some e \<Rightarrow>
                              ([NewClient c, NewStmtRq r, RequestStatements c r, FileOpen f,
                                FileWrite f (Bytes body)], Inl e)
                          | None \<Rightarrow>
                              ([NewClient c, NewStmtRq r, RequestStatements c r, FileOpen f,
                                FileWrite f (Bytes body)], Inr f)))))))"
  unfolding try_block_def client_of_def stmtrq_of_def fname_of_def Let_def by (rule refl)



lemma try_block_no_output: "Stdout r \<notin> set (fst (try_block w cfg i u p ts te out))"
  by (auto simp: try_block_steps Let_def split: option.splits sum.splits)

lemma download_ofx_steps:
  "download_ofx w i u p days out =
     (if \<not> HAS_OFXTOOLS w then
        ([], Inr (JObj [(''success'', JBool False), (''error'', JStr ''ofxtools not installed''),
                        (''files'', JList [])]))
      else case INSTITUTIONS i of
        None \<Rightarrow>
          ([], Inr (JObj [(''success'', JBool False),
                          (''error'', JStr (''Unknown institution: '' @ i)),
                          (''files'', JList [])]))
      | Some cfg \<Rightarrow>
         (case path_mkdir w out of
            Some e \<Rightarrow> ([Mkdir out], Inl (Unhandled e))
          | None \<Rightarrow>
             (case timedelta_days days of
                Inl c \<Rightarrow> ([Mkdir out], Inl c)
              | Inr delta \<Rightarrow>
                 (case datetime_sub (now_utc w 0) delta of
                    Inl c \<Rightarrow> ([Mkdir out], Inl c)
                  | Inr ts \<Rightarrow>
                      (Mkdir out # fst (try_block w cfg i u p ts (now_utc w 1) out),
                       Inr (case snd (try_block w cfg i u p ts (now_utc w 1) out) of
                              Inr fname \<Rightarrow> success fname i
                            | Inl e \<Rightarrow> failure (exn_str e) i))))))"
  by (auto simp: download_ofx_def success_def failure_def split: option.splits sum.splits prod.splits)

lemma download_ofx_reached:
  assumes "e \<in> set (fst (download_ofx w i u p days out))" and "e \<noteq> Mkdir out"
  shows "\<exists>cfg delta ts. HAS_OFXTOOLS w \<and> INSTITUTIONS i = Some cfg \<and> path_mkdir w out = None \<and>
           timedelta_days days = Inr delta \<and> datetime_sub (now_utc w 0) delta = Inr ts \<and>
           e \<in> set (fst (try_block w cfg i u p ts (now_utc w 1) out)) \<and>
           download_ofx w i u p days out =
             (Mkdir out # fst (try_block w cfg i u p ts (now_utc w 1) out),
              Inr (case snd (try_block w cfg i u p ts (now_utc w 1) out) of
                     Inr fname \<Rightarrow> success fname i
                   | Inl e \<Rightarrow> failure (exn_str e) i))"
  using assms
  by (auto simp: download_ofx_steps split: if_splits option.splits sum.splits)

lemma ofx_main_steps:
  "ofx_main w a =
     (if environ_get w (upper (args_institution a) @ ''_USERNAME'') [] = [] \<or>
         environ_get w (upper (args_institution a) @ ''_PASSWORD'') [] = []
      then ([Stdout (JObj [(''success'', JBool False), (''error'', JStr ''Missing credentials''),
                           (''files'', JList [])])], Exit 1)
      else
        (case snd (download_ofx w (args_institution a)
                     (environ_get w (upper (args_institution a) @ ''_USERNAME'') [])
                     (environ_get w (upper (args_institution a) @ ''_PASSWORD'') [])
                     (args_days a) (os_path_join (args_output a) (args_institution a))) of
           Inl c \<Rightarrow>
             (fst (download_ofx w (args_institution a)
                     (environ_get w (upper (args_institution a) @ ''_USERNAME'') [])
                     (environ_get w (upper (args_institution a) @ ''_PASSWORD'') [])
                     (args_days a) (os_path_join (args_output a) (args_institution a))),
              Uncaught c)
         | Inr result \<Rightarrow>
             (fst (download_ofx w (args_institution a)
                     (environ_get w (upper (args_institution a) @ ''_USERNAME'') [])
                     (environ_get w (upper (args_institution a) @ ''_PASSWORD'') [])
                     (args_days a) (os_path_join (args_output a) (args_institution a)))
                @ [Stdout result],
              Exit (if json_get result ''success'' = Some (JBool True) then 0 else 1))))"
  by (auto simp: ofx_main_def Let_def split: prod.splits sum.splits)


subsection \<open>Credentials, institutions and the request window\<close>

lemma environ_get_empty:
  "environ_get w k [] = [] \<longleftrightarrow> environ w k \<in> {None, Some []}"
  by (auto simp: environ_get_def split: option.splits)

lemma ofx_main_missing:
  assumes "environ w (upper (args_institution a) @ ''_USERNAME'') \<in> {None, Some []} \<or>
           environ w (upper (args_institution a) @ ''_PASSWORD'') \<in> {None, Some []}"
  shows "ofx_main w a = ([Stdout missing_credentials_result], Exit 1)"
  using assms unfolding environ_get_empty [symmetric]
  by (auto simp: ofx_main_steps missing_credentials_result_def)

lemma choices_eq: "fst ` set INSTITUTIONS_items = {''chase'', ''usaa''}"
  by (auto simp: INSTITUTIONS_items_def)

lemma INSTITUTIONS_None: "INSTITUTIONS i = None \<longleftrightarrow> i \<notin> {''chase'', ''usaa''}"
  by (auto simp: INSTITUTIONS_def INSTITUTIONS_items_def)

text \<open>
  Claim C4.  When the username or the password variable of the requested institution
  is absent or empty, the direct-connect main prints the result with \<open>success\<close> false,
  error \<open>Missing credentials\<close> and an empty file list, exits with status 1, and performs
  no effect of the protocol session: no session is constructed, no request is built or
  sent.  This is so for the body of main at every institution name, and so for the
  command line at the two names the argument parser accepts.
\<close>

theorem missing_credentials:
  assumes "environ w (upper i @ ''_USERNAME'') \<in> {None, Some []} \<or>
           environ w (upper i @ ''_PASSWORD'') \<in> {None, Some []}"
  shows "ofx_main w \<lparr>args_institution = i, args_days = days, args_output = output_dir\<rparr> =
           ([Stdout (JObj [(''success'', JBool False), (''error'', JStr ''Missing credentials''),
                           (''files'', JList [])])], Exit 1)
       \<and> (\<forall>e \<in> set (fst (ofx_main w \<lparr>args_institution = i, args_days = days,
                                        args_output = output_dir\<rparr>)). \<not> is_protocol_event e)
       \<and> (i \<in> {''chase'', ''usaa''} \<and> argv_institution argv = Some i \<longrightarrow>
            ofx_cli w argv =
              ([Stdout (JObj [(''success'', JBool False), (''error'', JStr ''Missing credentials''),
                              (''files'', JList [])])], Exit 1))"
proof -
  have m: "\<And>a. args_institution a = i \<Longrightarrow>
             ofx_main w a = ([Stdout missing_credentials_result], Exit 1)"
    using assms by (auto intro!: ofx_main_missing)
  have 1: "ofx_main w \<lparr>args_institution = i, args_days = days, args_output = output_dir\<rparr> =
             ([Stdout missing_credentials_result], Exit 1)"
    by (rule m) simp
  have 3: "i \<in> {''chase'', ''usaa''} \<and> argv_institution argv = Some i \<longrightarrow>
            ofx_cli w argv = ([Stdout missing_credentials_result], Exit 1)"
  proof
    assume a: "i \<in> {''chase'', ''usaa''} \<and> argv_institution argv = Some i"
    then have "i \<in> fst ` set INSTITUTIONS_items" by (simp only: choices_eq)
    with a show "ofx_cli w argv = ([Stdout missing_credentials_result], Exit 1)"
      by (simp add: ofx_cli_def m)
  qed
  from 1 3 show ?thesis by (simp add: missing_credentials_result_def)
qed

theorem missing_credentials_witness:
  "ofx_cli demo_world \<lparr>argv_institution = Some ''usaa'', argv_days = None, argv_output = None\<rparr> =
     ([Stdout (JObj [(''success'', JBool False), (''error'', JStr ''Missing credentials''),
                     (''files'', JList [])])], Exit 1)"
proof -
  have h: "environ demo_world (upper ''usaa'' @ ''_USERNAME'') \<in> {None, Some []} \<or>
           environ demo_world (upper ''usaa'' @ ''_PASSWORD'') \<in> {None, Some []}"
    by (simp add: upper_def upper_char_def demo_world_def demo_environ_def)
  from missing_credentials [OF h, of 30 "''/app/downloads''"
      "\<lparr>argv_institution = Some ''usaa'', argv_days = None, argv_output = None\<rparr>"]
  show ?thesis by simp
qed

text \<open>
  Claim C5, as amended.  Called with an identity that is neither \<open>chase\<close> nor \<open>usaa\<close>,
  \<^verbatim>\<open>download_ofx\<close> performs no effect and returns a failure result with an empty file
  list, whose error is \<open>Unknown institution: <identity>\<close> when the ofxtools library is
  available and \<open>ofxtools not installed\<close> when it is not; the body of main performs no
  effect of the protocol session; and the command line rejects the identity while
  parsing its arguments, with a usage message and exit status 2, before any result.
\<close>

theorem unknown_institution:
  assumes "i \<notin> {''chase'', ''usaa''}"
  shows "download_ofx w i username password days output_dir =
           ([], Inr (JObj [(''success'', JBool False),
                           (''error'', JStr (if HAS_OFXTOOLS w then ''Unknown institution: '' @ i
                                             else ''ofxtools not installed'')),
                           (''files'', JList [])]))
       \<and> (\<forall>e \<in> set (fst (ofx_main w \<lparr>args_institution = i, args_days = days,
                                        args_output = output\<rparr>)). \<not> is_protocol_event e)
       \<and> (argv_institution argv = Some i \<longrightarrow>
            ofx_cli w argv = ([UsageError ''--institution''], Exit 2))"
proof -
  from assms have n: "INSTITUTIONS i = None" by (simp add: INSTITUTIONS_None)
  have 1: "download_ofx w i username password days output_dir =
           ([], Inr (JObj [(''success'', JBool False),
                           (''error'', JStr (if HAS_OFXTOOLS w then ''Unknown institution: '' @ i
                                             else ''ofxtools not installed'')),
                           (''files'', JList [])]))"
    using n by (simp add: download_ofx_steps)
  have 2: "\<forall>e \<in> set (fst (ofx_main w \<lparr>args_institution = i, args_days = days,
                                        args_output = output\<rparr>)). \<not> is_protocol_event e"
    using n by (auto simp: ofx_main_steps download_ofx_steps split: sum.splits if_splits)
  have 3: "argv_institution argv = Some i \<longrightarrow>
            ofx_cli w argv = ([UsageError ''--institution''], Exit 2)"
    using assms by (simp add: ofx_cli_def choices_eq)
  from 1 2 3 show ?thesis by blast
qed

theorem unknown_institution_witness:
  "download_ofx demo_world ''paypal'' ''alice'' ''pw2'' 30 ''/app/downloads/paypal'' =
     ([], Inr (JObj [(''success'', JBool False),
                     (''error'', JStr ''Unknown institution: paypal''),
                     (''files'', JList [])]))"
proof -
  have h: "''paypal'' \<notin> {''chase'', ''usaa''}" by simp
  have t: "HAS_OFXTOOLS demo_world" by (simp add: demo_world_def)
  from unknown_institution [OF h, of demo_world "''alice''" "''pw2''" 30 "''/app/downloads/paypal''"] t
  show ?thesis by simp
qed

text \<open>
  The claim as stated fails: without the ofxtools library the error of an unknown
  identity is \<open>ofxtools not installed\<close>, and from the command line an unknown identity
  ends in the argument parser, which prints no result at all.
\<close>

theorem unknown_institution_counterexample:
  "download_ofx world_without_ofxtools ''paypal'' ''alice'' ''pw2'' 30 ''/app/downloads/paypal'' =
     ([], Inr (JObj [(''success'', JBool False),
                     (''error'', JStr ''ofxtools not installed''),
                     (''files'', JList [])]))
   \<and> ofx_cli demo_world \<lparr>argv_institution = Some ''paypal'', argv_days = None, argv_output = None\<rparr> =
       ([UsageError ''--institution''], Exit 2)"
  by (simp add: download_ofx_def world_without_ofxtools_def demo_world_def ofx_cli_def
      INSTITUTIONS_items_def)

lemma datetime_sub_ok:
  "0 \<le> t - delta \<Longrightarrow> t - delta < MAXORDINAL * us_per_day \<Longrightarrow> datetime_sub t delta = Inr (t - delta)"
  unfolding datetime_sub_def us_per_day_def MAXORDINAL_def by simp linarith

lemma datetime_sub_Inr: "datetime_sub t delta = Inr ts \<Longrightarrow> ts = t - delta"
  by (simp add: datetime_sub_def split: if_splits)

lemma timedelta_days_Inr: "timedelta_days days = Inr delta \<Longrightarrow> delta = days * us_per_day"
  by (simp add: timedelta_days_def split: if_splits)

lemma try_block_stmtrq:
  assumes "NewStmtRq r \<in> set (fst (try_block w cfg i u p ts te out))"
  shows "r = stmtrq_of cfg ts te"
  using assms
  by (auto simp: try_block_steps Let_def split: option.splits sum.splits)

lemma try_block_stmtrq_built:
  "OFXClient w (client_of cfg u p) = None \<Longrightarrow>
   NewStmtRq (stmtrq_of cfg ts te) \<in> set (fst (try_block w cfg i u p ts te out))"
  by (auto simp: try_block_steps Let_def split: option.splits sum.splits)

text \<open>
  Claim C9, as amended.  Every statement request that \<^verbatim>\<open>download_ofx\<close> builds has as
  \<open>dtstart\<close> the first reading of the UTC clock minus the day count, and as \<open>dtend\<close> a
  second reading of the UTC clock, taken next; \<open>dtstart\<close> is \<open>dtend\<close> minus the day count
  exactly when the two readings are equal.  The request is built whenever the library is
  available, the institution is known, the output directory is created, the day count
  and the start of the window are representable, and the session constructor returns.
\<close>

theorem request_window:
  "(\<forall>r. NewStmtRq r \<in> set (fst (download_ofx w i u p days out)) \<longrightarrow>
        dtstart r = now_utc w 0 - days * 86400000000 \<and> dtend r = now_utc w 1 \<and>
        (dtstart r = dtend r - days * 86400000000 \<longleftrightarrow> now_utc w 1 = now_utc w 0))
   \<and> (HAS_OFXTOOLS w \<and> INSTITUTIONS i = Some cfg \<and> path_mkdir w out = None \<and>
       - 999999999 \<le> days \<and> days \<le> 999999999 \<and>
       0 \<le> now_utc w 0 - days * 86400000000 \<and>
       now_utc w 0 - days * 86400000000 < 3652059 * 86400000000 \<and>
       OFXClient w (client_of cfg u p) = None \<longrightarrow>
       NewStmtRq \<lparr>acctid = [], accttype = ''CHECKING'',
                   dtstart = now_utc w 0 - days * 86400000000, dtend = now_utc w 1,
                   bankid = inst_bankid cfg\<rparr>
         \<in> set (fst (download_ofx w i u p days out)))"
proof -
  have 1: "\<forall>r. NewStmtRq r \<in> set (fst (download_ofx w i u p days out)) \<longrightarrow>
        dtstart r = now_utc w 0 - days * 86400000000 \<and> dtend r = now_utc w 1 \<and>
        (dtstart r = dtend r - days * 86400000000 \<longleftrightarrow> now_utc w 1 = now_utc w 0)"
  proof (intro allI impI)
    fix r assume a: "NewStmtRq r \<in> set (fst (download_ofx w i u p days out))"
    have "NewStmtRq r \<noteq> Mkdir out" by simp
    from download_ofx_reached [OF a this] obtain cfg' delta ts where
      d: "timedelta_days days = Inr delta" and s: "datetime_sub (now_utc w 0) delta = Inr ts"
      and t: "NewStmtRq r \<in> set (fst (try_block w cfg' i u p ts (now_utc w 1) out))"
      by blast
    from try_block_stmtrq [OF t] have r: "r = stmtrq_of cfg' ts (now_utc w 1)" .
    from datetime_sub_Inr [OF s] timedelta_days_Inr [OF d]
    have "ts = now_utc w 0 - days * 86400000000" by (simp add: us_per_day_def)
    with r show "dtstart r = now_utc w 0 - days * 86400000000 \<and> dtend r = now_utc w 1 \<and>
        (dtstart r = dtend r - days * 86400000000 \<longleftrightarrow> now_utc w 1 = now_utc w 0)"
      by (auto simp: stmtrq_of_def)
  qed
  have 2: "HAS_OFXTOOLS w \<and> INSTITUTIONS i = Some cfg \<and> path_mkdir w out = None \<and>
       - 999999999 \<le> days \<and> days \<le> 999999999 \<and>
       0 \<le> now_utc w 0 - days * 86400000000 \<and>
       now_utc w 0 - days * 86400000000 < 3652059 * 86400000000 \<and>
       OFXClient w (client_of cfg u p) = None \<longrightarrow>
       NewStmtRq \<lparr>acctid = [], accttype = ''CHECKING'',
                   dtstart = now_utc w 0 - days * 86400000000, dtend = now_utc w 1,
                   bankid = inst_bankid cfg\<rparr>
         \<in> set (fst (download_ofx w i u p days out))"
  proof
    assume a: "HAS_OFXTOOLS w \<and> INSTITUTIONS i = Some cfg \<and> path_mkdir w out = None \<and>
       - 999999999 \<le> days \<and> days \<le> 999999999 \<and>
       0 \<le> now_utc w 0 - days * 86400000000 \<and>
       now_utc w 0 - days * 86400000000 < 3652059 * 86400000000 \<and>
       OFXClient w (client_of cfg u p) = None"
    then have td: "timedelta_days days = Inr (days * us_per_day)"
      by (simp add: timedelta_days_def)
    from a have "datetime_sub (now_utc w 0) (days * us_per_day)
                   = Inr (now_utc w 0 - days * us_per_day)"
      by (intro datetime_sub_ok) (simp_all add: us_per_day_def MAXORDINAL_def)
    with a td try_block_stmtrq_built [of w cfg u p "now_utc w 0 - days * us_per_day" "now_utc w 1" i out]
    show "NewStmtRq \<lparr>acctid = [], accttype = ''CHECKING'',
                   dtstart = now_utc w 0 - days * 86400000000, dtend = now_utc w 1,
                   bankid = inst_bankid cfg\<rparr>
         \<in> set (fst (download_ofx w i u p days out))"
      by (simp add: download_ofx_steps stmtrq_of_def us_per_day_def)
  qed
  from 1 2 show ?thesis by blast
qed

lemma demo_chase_run:
  "download_ofx demo_world ''chase'' ''alice'' ''pw2'' 30 ''/app/downloads/chase'' =
     ([Mkdir ''/app/downloads/chase'',
       NewClient \<lparr>url = ''https://ofx.chase.com'', userid = ''alice'', userpass = ''pw2'',
                  org = ''B1'', fid = ''10898'', version = 220\<rparr>,
       NewStmtRq \<lparr>acctid = [], accttype = ''CHECKING'', dtstart = 63926788000000000,
                  dtend = 63929380000000001, bankid = ''072000326''\<rparr>,
       RequestStatements
         \<lparr>url = ''https://ofx.chase.com'', userid = ''alice'', userpass = ''pw2'',
          org = ''B1'', fid = ''10898'', version = 220\<rparr>
         \<lparr>acctid = [], accttype = ''CHECKING'', dtstart = 63926788000000000,
          dtend = 63929380000000001, bankid = ''072000326''\<rparr>,
       FileOpen ''/app/downloads/chase/chase_20261104_090507.ofx'',
       FileWrite ''/app/downloads/chase/chase_20261104_090507.ofx'' (Bytes ''OFXHEADER:100'')],
      Inr (JObj [(''success'', JBool True),
                 (''files'', JList [JStr ''/app/downloads/chase/chase_20261104_090507.ofx'']),
                 (''institution'', JStr ''chase'')]))"
  by (simp add: download_ofx_def demo_world_def INSTITUTIONS_def INSTITUTIONS_items_def
      timedelta_days_def datetime_sub_def us_per_day_def MAXORDINAL_def try_block_def
      os_path_join_def strftime_def zero_pad2_def zero_pad4_def digit_def Let_def)

theorem request_window_witness:
  "dtstart \<lparr>acctid = [], accttype = ''CHECKING'', dtstart = 63926788000000000,
            dtend = 63929380000000001, bankid = ''072000326''\<rparr>
     = now_utc demo_world 0 - 30 * 86400000000"
proof -
  have "NewStmtRq \<lparr>acctid = [], accttype = ''CHECKING'', dtstart = 63926788000000000,
            dtend = 63929380000000001, bankid = ''072000326''\<rparr>
        \<in> set (fst (download_ofx demo_world ''chase'' ''alice'' ''pw2'' 30 ''/app/downloads/chase''))"
    by (simp add: demo_chase_run)
  with request_window [of demo_world "''chase''" "''alice''" "''pw2''" 30 "''/app/downloads/chase''"]
  show ?thesis by blast
qed

text \<open>
  The claim as stated fails when the clock advances between the two readings: here by
  one microsecond, and \<open>dtstart\<close> is not \<open>dtend\<close> minus thirty days.
\<close>

theorem request_window_counterexample:
  "NewStmtRq \<lparr>acctid = [], accttype = ''CHECKING'', dtstart = 63926788000000000,
              dtend = 63929380000000001, bankid = ''072000326''\<rparr>
     \<in> set (fst (download_ofx demo_world ''chase'' ''alice'' ''pw2'' 30 ''/app/downloads/chase''))
   \<and> (63926788000000000 :: int) \<noteq> 63929380000000001 - 30 * 86400000000"
  by (simp add: demo_chase_run)


subsection \<open>Results, failures and the saved file\<close>

lemma download_ofx_no_output: "Stdout r \<notin> set (fst (download_ofx w i u p days out))"
  using try_block_no_output [of r w]
  by (auto simp: download_ofx_steps split: option.splits sum.splits)

lemma download_ofx_result:
  assumes "snd (download_ofx w i u p days out) = Inr r"
  shows "r = JObj [(''success'', JBool False), (''error'', JStr ''ofxtools not installed''),
                   (''files'', JList [])]
       \<or> r = JObj [(''success'', JBool False), (''error'', JStr (''Unknown institution: '' @ i)),
                   (''files'', JList [])]
       \<or> (\<exists>cfg ts f. snd (try_block w cfg i u p ts (now_utc w 1) out) = Inr f \<and> r = success f i)
       \<or> (\<exists>cfg ts e. snd (try_block w cfg i u p ts (now_utc w 1) out) = Inl e \<and>
             r = failure (exn_str e) i)"
  using assms
  by (auto simp: download_ofx_steps split: if_splits option.splits sum.splits) blast+

lemma ofx_main_stdout:
  assumes "Stdout r \<in> set (fst (ofx_main w a))"
  shows "r = missing_credentials_result
       \<or> (\<exists>u p. snd (download_ofx w (args_institution a) u p (args_days a)
                        (os_path_join (args_output a) (args_institution a))) = Inr r)"
  using assms download_ofx_no_output [of r w]
  by (auto simp: ofx_main_steps missing_credentials_result_def split: if_splits sum.splits)

text \<open>
  Claim C6, as amended.  Every result the direct-connect main prints either has
  \<open>success\<close> true and a file list of exactly one path, or has \<open>success\<close> false, an empty
  file list and an error message; the message is non-empty unless it is the text of an
  exception caught from the \<^verbatim>\<open>try\<close> block whose text is empty.  So the invariant of the
  specification holds for every printed result except such a one.
\<close>

theorem download_result_shape:
  assumes "Stdout r \<in> set (fst (ofx_main w a))"
  shows "((json_get r ''success'' = Some (JBool True) \<and>
            (\<exists>f. json_get r ''files'' = Some (JList [JStr f])))
          \<or> (json_get r ''success'' = Some (JBool False) \<and>
              json_get r ''files'' = Some (JList []) \<and>
              (\<exists>m. json_get r ''error'' = Some (JStr m) \<and>
                   (m = [] \<longrightarrow>
                      (\<exists>cfg u p ts te out evs e.
                         try_block w cfg (args_institution a) u p ts te out = (evs, Inl e) \<and>
                         exn_str e = [])))))
       \<and> (download_result_invariant r
          \<or> (\<exists>cfg u p ts te out evs e.
                try_block w cfg (args_institution a) u p ts te out = (evs, Inl e) \<and>
                exn_str e = []))"
proof -
  let ?caught = "\<exists>cfg u p ts te out evs e.
                   try_block w cfg (args_institution a) u p ts te out = (evs, Inl e) \<and>
                   exn_str e = []"
  let ?ok = "json_get r ''success'' = Some (JBool True) \<and>
             (\<exists>f. json_get r ''files'' = Some (JList [JStr f]))"
  let ?ko = "\<lambda>m. json_get r ''success'' = Some (JBool False) \<and>
             json_get r ''files'' = Some (JList []) \<and> json_get r ''error'' = Some (JStr m)"
  have "?ok \<or> (\<exists>m. ?ko m \<and> (m = [] \<longrightarrow> ?caught))"
  proof -
    from ofx_main_stdout [OF assms] consider
      (missing) "r = missing_credentials_result"
      | (ran) u p where "snd (download_ofx w (args_institution a) u p (args_days a)
                        (os_path_join (args_output a) (args_institution a))) = Inr r"
      by blast
    then show ?thesis
    proof cases
      case missing
      then have "?ko ''Missing credentials''"
        by (simp add: missing_credentials_result_def json_get_def)
      then show ?thesis by blast
    next
      case ran
      from download_ofx_result [OF ran] consider
        (lib) "r = JObj [(''success'', JBool False), (''error'', JStr ''ofxtools not installed''),
                   (''files'', JList [])]"
        | (unknown) "r = JObj [(''success'', JBool False),
                   (''error'', JStr (''Unknown institution: '' @ args_institution a)),
                   (''files'', JList [])]"
        | (saved) f where "r = success f (args_institution a)"
        | (caught) cfg ts e where
            "snd (try_block w cfg (args_institution a) u p ts (now_utc w 1)
                    (os_path_join (args_output a) (args_institution a))) = Inl e"
            "r = failure (exn_str e) (args_institution a)"
        by blast
      then show ?thesis
      proof cases
        case lib
        then have "?ko ''ofxtools not installed''" by (simp add: json_get_def)
        then show ?thesis by blast
      next
        case unknown
        then have "?ko (''Unknown institution: '' @ args_institution a)"
          by (simp add: json_get_def)
        then show ?thesis by blast
      next
        case saved
        then have ?ok by (simp add: success_def json_get_def)
        then show ?thesis by blast
      next
        case caught
        from caught(2) have k: "?ko (exn_str e)" by (simp add: failure_def json_get_def)
        from caught(1) have "exn_str e = [] \<longrightarrow> ?caught"
          by (metis prod.collapse)
        with k show ?thesis by blast
      qed
    qed
  qed
  moreover from this have "download_result_invariant r \<or> ?caught"
    by (auto split: list.splits)
  ultimately show ?thesis by blast
qed


lemmas run_simps =
  ofx_main_def chase_args_def upper_def upper_char_def environ_get_def demo_world_def
  demo_environ_def download_ofx_def INSTITUTIONS_def INSTITUTIONS_items_def
  timedelta_days_def datetime_sub_def us_per_day_def MAXORDINAL_def try_block_def
  os_path_join_def strftime_def zero_pad2_def zero_pad4_def digit_def Let_def json_get_def

lemma demo_chase_main:
  "ofx_main demo_world chase_args =
     ([Mkdir ''/app/downloads/chase'',
       NewClient \<lparr>url = ''https://ofx.chase.com'', userid = ''alice'', userpass = ''pw2'',
                  org = ''B1'', fid = ''10898'', version = 220\<rparr>,
       NewStmtRq \<lparr>acctid = [], accttype = ''CHECKING'', dtstart = 63926788000000000,
                  dtend = 63929380000000001, bankid = ''072000326''\<rparr>,
       RequestStatements
         \<lparr>url = ''https://ofx.chase.com'', userid = ''alice'', userpass = ''pw2'',
          org = ''B1'', fid = ''10898'', version = 220\<rparr>
         \<lparr>acctid = [], accttype = ''CHECKING'', dtstart = 63926788000000000,
          dtend = 63929380000000001, bankid = ''072000326''\<rparr>,
       FileOpen ''/app/downloads/chase/chase_20261104_090507.ofx'',
       FileWrite ''/app/downloads/chase/chase_20261104_090507.ofx'' (Bytes ''OFXHEADER:100''),
       Stdout (JObj [(''success'', JBool True),
                     (''files'', JList [JStr ''/app/downloads/chase/chase_20261104_090507.ofx'']),
                     (''institution'', JStr ''chase'')])],
      Exit 0)"
  by (simp add: run_simps)

lemma silent_failure_main:
  "ofx_main world_silent_failure chase_args =
     ([Mkdir ''/app/downloads/chase'',
       NewClient \<lparr>url = ''https://ofx.chase.com'', userid = ''alice'', userpass = ''pw2'',
                  org = ''B1'', fid = ''10898'', version = 220\<rparr>,
       NewStmtRq \<lparr>acctid = [], accttype = ''CHECKING'', dtstart = 63926788000000000,
                  dtend = 63929380000000001, bankid = ''072000326''\<rparr>,
       RequestStatements
         \<lparr>url = ''https://ofx.chase.com'', userid = ''alice'', userpass = ''pw2'',
          org = ''B1'', fid = ''10898'', version = 220\<rparr>
         \<lparr>acctid = [], accttype = ''CHECKING'', dtstart = 63926788000000000,
          dtend = 63929380000000001, bankid = ''072000326''\<rparr>,
       Stdout (JObj [(''success'', JBool False), (''error'', JStr []), (''files'', JList []),
                     (''institution'', JStr ''chase'')])],
      Exit 1)"
  by (simp add: run_simps world_silent_failure_def)

theorem download_result_shape_witness:
  "json_get (JObj [(''success'', JBool True),
                   (''files'', JList [JStr ''/app/downloads/chase/chase_20261104_090507.ofx'']),
                   (''institution'', JStr ''chase'')]) ''success'' = Some (JBool True)
   \<and> (\<exists>f. json_get (JObj [(''success'', JBool True),
                   (''files'', JList [JStr ''/app/downloads/chase/chase_20261104_090507.ofx'']),
                   (''institution'', JStr ''chase'')]) ''files'' = Some (JList [JStr f]))"
proof -
  let ?r = "JObj [(''success'', JBool True),
                   (''files'', JList [JStr ''/app/downloads/chase/chase_20261104_090507.ofx'']),
                   (''institution'', JStr ''chase'')]"
  have h: "Stdout ?r \<in> set (fst (ofx_main demo_world chase_args))"
    by (simp add: demo_chase_main)
  have n: "json_get ?r ''success'' \<noteq> Some (JBool False)" by (simp add: json_get_def)
  from download_result_shape [OF h] n show ?thesis by blast
qed

text \<open>
  The claim as stated fails: when the library raises an exception without a message,
  the printed failure result carries the empty string as its error.
\<close>

theorem download_result_shape_counterexample:
  "Stdout (JObj [(''success'', JBool False), (''error'', JStr []), (''files'', JList []),
                 (''institution'', JStr ''chase'')])
     \<in> set (fst (ofx_main world_silent_failure chase_args))
   \<and> \<not> download_result_invariant
         (JObj [(''success'', JBool False), (''error'', JStr []), (''files'', JList []),
                (''institution'', JStr ''chase'')])"
  by (simp add: silent_failure_main json_get_def)

text \<open>
  Claim C8, as amended.  In a run of the direct-connect main in which creating the
  output directory and computing the start of the request window raise nothing, exactly
  one JSON result is printed, as the last effect, and the exit status is 0 when its
  \<open>success\<close> is true and 1 otherwise; and when the \<^verbatim>\<open>try\<close> block raises an exception,
  the run is the effects of the block followed by the printed failure result that
  carries the text of the exception, the empty file list and the institution, with exit
  status 1.
\<close>

theorem failures_reported:
  assumes mk: "path_mkdir w (os_path_join (args_output a) (args_institution a)) = None"
    and td: "timedelta_days (args_days a) = Inr delta"
    and ds: "datetime_sub (now_utc w 0) delta = Inr ts"
  shows "(\<exists>evs r. ofx_main w a =
             (evs @ [Stdout r], Exit (if json_get r ''success'' = Some (JBool True) then 0 else 1))
           \<and> (\<forall>r'. Stdout r' \<notin> set evs))
       \<and> (\<forall>cfg evs e.
             HAS_OFXTOOLS w \<and> INSTITUTIONS (args_institution a) = Some cfg \<and>
             environ_get w (upper (args_institution a) @ ''_USERNAME'') [] \<noteq> [] \<and>
             environ_get w (upper (args_institution a) @ ''_PASSWORD'') [] \<noteq> [] \<and>
             try_block w cfg (args_institution a)
               (environ_get w (upper (args_institution a) @ ''_USERNAME'') [])
               (environ_get w (upper (args_institution a) @ ''_PASSWORD'') [])
               ts (now_utc w 1) (os_path_join (args_output a) (args_institution a)) = (evs, Inl e)
             \<longrightarrow>
             ofx_main w a =
               (Mkdir (os_path_join (args_output a) (args_institution a)) # evs @
                [Stdout (JObj [(''success'', JBool False), (''error'', JStr (exn_str e)),
                               (''files'', JList []),
                               (''institution'', JStr (args_institution a))])],
                Exit 1))"
proof -
  let ?i = "args_institution a"
  let ?u = "environ_get w (upper ?i @ ''_USERNAME'') []"
  let ?p = "environ_get w (upper ?i @ ''_PASSWORD'') []"
  let ?out = "os_path_join (args_output a) ?i"
  have 1: "\<exists>evs r. ofx_main w a =
             (evs @ [Stdout r], Exit (if json_get r ''success'' = Some (JBool True) then 0 else 1))
           \<and> (\<forall>r'. Stdout r' \<notin> set evs)"
  proof (cases "?u = [] \<or> ?p = []")
    case True
    then have "ofx_main w a = ([] @ [Stdout missing_credentials_result], Exit 1)"
      by (simp add: ofx_main_steps missing_credentials_result_def)
    moreover have "json_get missing_credentials_result ''success'' \<noteq> Some (JBool True)"
      by (simp add: missing_credentials_result_def json_get_def)
    ultimately show ?thesis by force
  next
    case False
    from mk td ds have "\<exists>r. snd (download_ofx w ?i ?u ?p (args_days a) ?out) = Inr r"
      by (simp add: download_ofx_steps split: option.splits)
    then obtain r where
      r: "snd (download_ofx w ?i ?u ?p (args_days a) ?out) = Inr r" ..
    with False have "ofx_main w a =
        (fst (download_ofx w ?i ?u ?p (args_days a) ?out) @ [Stdout r],
         Exit (if json_get r ''success'' = Some (JBool True) then 0 else 1))"
      by (simp add: ofx_main_steps)
    with download_ofx_no_output [of _ w ?i ?u ?p "args_days a" ?out] show ?thesis
      by blast
  qed
  have 2: "\<forall>cfg evs e.
             HAS_OFXTOOLS w \<and> INSTITUTIONS ?i = Some cfg \<and> ?u \<noteq> [] \<and> ?p \<noteq> [] \<and>
             try_block w cfg ?i ?u ?p ts (now_utc w 1) ?out = (evs, Inl e)
             \<longrightarrow>
             ofx_main w a =
               (Mkdir ?out # evs @
                [Stdout (JObj [(''success'', JBool False), (''error'', JStr (exn_str e)),
                               (''files'', JList []), (''institution'', JStr ?i)])],
                Exit 1)"
    using mk td ds
    by (simp add: ofx_main_steps download_ofx_steps failure_def json_get_def)
  from 1 2 show ?thesis by blast
qed

theorem failures_reported_witness:
  "ofx_main world_offline chase_args =
     ([Mkdir ''/app/downloads/chase'',
       NewClient \<lparr>url = ''https://ofx.chase.com'', userid = ''alice'', userpass = ''pw2'',
                  org = ''B1'', fid = ''10898'', version = 220\<rparr>,
       NewStmtRq \<lparr>acctid = [], accttype = ''CHECKING'', dtstart = 63926788000000000,
                  dtend = 63929380000000001, bankid = ''072000326''\<rparr>,
       RequestStatements
         \<lparr>url = ''https://ofx.chase.com'', userid = ''alice'', userpass = ''pw2'',
          org = ''B1'', fid = ''10898'', version = 220\<rparr>
         \<lparr>acctid = [], accttype = ''CHECKING'', dtstart = 63926788000000000,
          dtend = 63929380000000001, bankid = ''072000326''\<rparr>,
       Stdout (JObj [(''success'', JBool False), (''error'', JStr ''Connection refused''),
                     (''files'', JList []), (''institution'', JStr ''chase'')])],
      Exit 1)"
proof -
  let ?cfg = "\<lparr>inst_url = ''https://ofx.chase.com'', inst_fid = ''10898'', inst_org = ''B1'',
               inst_bankid = ''072000326''\<rparr>"
  have mk: "path_mkdir world_offline
              (os_path_join (args_output chase_args) (args_institution chase_args)) = None"
    by (simp add: world_offline_def demo_world_def)
  have td: "timedelta_days (args_days chase_args) = Inr 2592000000000"
    by (simp add: timedelta_days_def chase_args_def us_per_day_def)
  have ds: "datetime_sub (now_utc world_offline 0) 2592000000000 = Inr 63926788000000000"
    by (simp add: datetime_sub_def world_offline_def demo_world_def us_per_day_def MAXORDINAL_def)
  have c: "HAS_OFXTOOLS world_offline \<and> INSTITUTIONS (args_institution chase_args) = Some ?cfg"
    by (simp add: world_offline_def demo_world_def INSTITUTIONS_def INSTITUTIONS_items_def
        chase_args_def)
  have u: "environ_get world_offline (upper (args_institution chase_args) @ ''_USERNAME'') [] = ''alice''"
    by (simp add: chase_args_def upper_def upper_char_def environ_get_def world_offline_def
        demo_world_def demo_environ_def)
  have p: "environ_get world_offline (upper (args_institution chase_args) @ ''_PASSWORD'') [] = ''pw2''"
    by (simp add: chase_args_def upper_def upper_char_def environ_get_def world_offline_def
        demo_world_def demo_environ_def)
  have t: "try_block world_offline ?cfg (args_institution chase_args) ''alice'' ''pw2''
             63926788000000000 (now_utc world_offline 1)
             (os_path_join (args_output chase_args) (args_institution chase_args)) =
           ([NewClient \<lparr>url = ''https://ofx.chase.com'', userid = ''alice'', userpass = ''pw2'',
                  org = ''B1'', fid = ''10898'', version = 220\<rparr>,
             NewStmtRq \<lparr>acctid = [], accttype = ''CHECKING'', dtstart = 63926788000000000,
                  dtend = 63929380000000001, bankid = ''072000326''\<rparr>,
             RequestStatements
               \<lparr>url = ''https://ofx.chase.com'', userid = ''alice'', userpass = ''pw2'',
                org = ''B1'', fid = ''10898'', version = 220\<rparr>
               \<lparr>acctid = [], accttype = ''CHECKING'', dtstart = 63926788000000000,
                dtend = 63929380000000001, bankid = ''072000326''\<rparr>],
            Inl (Exn ''ConnectionError'' ''Connection refused''))"
    by (simp add: try_block_def world_offline_def demo_world_def chase_args_def Let_def)
  from failures_reported [OF mk td ds] c u p t
  have "ofx_main world_offline chase_args =
          (Mkdir (os_path_join (args_output chase_args) (args_institution chase_args)) #
           [NewClient \<lparr>url = ''https://ofx.chase.com'', userid = ''alice'', userpass = ''pw2'',
                  org = ''B1'', fid = ''10898'', version = 220\<rparr>,
             NewStmtRq \<lparr>acctid = [], accttype = ''CHECKING'', dtstart = 63926788000000000,
                  dtend = 63929380000000001, bankid = ''072000326''\<rparr>,
             RequestStatements
               \<lparr>url = ''https://ofx.chase.com'', userid = ''alice'', userpass = ''pw2'',
                org = ''B1'', fid = ''10898'', version = 220\<rparr>
               \<lparr>acctid = [], accttype = ''CHECKING'', dtstart = 63926788000000000,
                dtend = 63929380000000001, bankid = ''072000326''\<rparr>] @
           [Stdout (JObj [(''success'', JBool False),
                          (''error'', JStr (exn_str (Exn ''ConnectionError'' ''Connection refused''))),
                          (''files'', JList []),
                          (''institution'', JStr (args_institution chase_args))])],
           Exit 1)"
    by simp
  then show ?thesis by (simp add: chase_args_def os_path_join_def)
qed

text \<open>
  The claim as stated fails: a day count beyond the range of \<^verbatim>\<open>timedelta\<close> raises
  \<^verbatim>\<open>OverflowError\<close> before the \<^verbatim>\<open>try\<close> block, and the process ends without a JSON result;
  and the session pipeline, which catches nothing, ends the same way when the config
  artifact cannot be opened.
\<close>

theorem failures_reported_counterexample:
  "ofx_main demo_world
     \<lparr>args_institution = ''chase'', args_days = 1000000000, args_output = ''/app/downloads''\<rparr> =
     ([Mkdir ''/app/downloads/chase''], Uncaught OverflowError)
   \<and> session_main world_read_only [''capitalone''] ''/tmp/x'' =
     ([Mkdir ''/tmp/x/capitalone'', FileOpen ''/tmp/financedl_config.py''],
      Uncaught (Unhandled (Exn ''PermissionError'' ''[Errno 13] Permission denied'')))"
  by (simp add: run_simps world_read_only_def session_main_def build_config_def
      build_config_loop.simps ENV_KEYS_def INSTITUTION_MODULES_def INSTITUTION_MODULES_items_def
      write_config_def config_path_def)










end
